theory Spec2Isabelle
  imports Complex_Main "HOL-Library.Log_Nat"
begin

section \<open>The redeemer delegation policy (src/redeemer/delegator.py)\<close>

text \<open>
  A shallow embedding of \<^verbatim>\<open>delegator.py\<close>. Python exceptions are values of a sum type
  (\<open>Inl\<close> the error), dictionaries with a fixed key set are records, and the library
  calls the module relies on (\<^verbatim>\<open>Decimal\<close>, \<^verbatim>\<open>int\<close>, \<^verbatim>\<open>datetime.strptime\<close>) are modelled on
  the plain textual forms the chain emits.

  Scope of the model:
  \<^item> \<^verbatim>\<open>Decimal\<close> values are exact rationals. The 28-digit rounding of Python's default
    decimal context, its exponent range and the special values NaN and Infinity are
    outside the model.
  \<^item> A record has every key; a \<^verbatim>\<open>KeyError\<close> for a key that is absent from an account
    dictionary is outside the model.
  \<^item> The text \<^verbatim>\<open>"%.6f VESTS" % new_delegated_vests\<close> is produced through a conversion to
    a binary double; the conversion and the rounding to six decimals are modelled
    exactly, on rationals. The text \<^verbatim>\<open>inf\<close> that a value beyond the double range renders
    to is not a number for the model's \<^verbatim>\<open>Decimal\<close>.
\<close>

subsection \<open>Errors\<close>

datatype error =
    InvalidOperation       \<comment> \<open>\<^verbatim>\<open>decimal.InvalidOperation\<close>: text that is no decimal number\<close>
  | DivisionByZero         \<comment> \<open>\<^verbatim>\<open>decimal.DivisionByZero\<close>\<close>
  | ValueError             \<comment> \<open>\<^verbatim>\<open>int\<close> or \<^verbatim>\<open>strptime\<close> on text that does not parse\<close>
  | KeyError               \<comment> \<open>dictionary lookup of a missing key\<close>
  | AttributeError         \<comment> \<open>a logging sink without an \<^verbatim>\<open>info\<close> method\<close>
  | ExternalError string   \<comment> \<open>raised by the chain client or the transaction builder\<close>

definition and_then :: "error + 'a \<Rightarrow> ('a \<Rightarrow> error + 'b) \<Rightarrow> error + 'b" where
  "and_then m f = (case m of Inl e \<Rightarrow> Inl e | Inr v \<Rightarrow> f v)"

subsection \<open>Text to numbers\<close>

definition digit_val :: "char \<Rightarrow> int option" where
  "digit_val c =
     (let n = (of_char c :: int) in if 48 \<le> n \<and> n \<le> 57 then Some (n - 48) else None)"

definition is_digit :: "char \<Rightarrow> bool" where
  "is_digit c = (digit_val c \<noteq> None)"

definition int_of_digits :: "string \<Rightarrow> int" where
  "int_of_digits ds = foldl (\<lambda>acc c. 10 * acc + (of_char c - 48)) 0 ds"

text \<open>
  \<^verbatim>\<open>Decimal(text)\<close> on fixed-point notation: an optional sign, digits, an optional point
  and digits, with at least one digit. Python accepts further forms (an exponent,
  underscores, surrounding whitespace, NaN, Infinity); the model reports them as
  \<open>InvalidOperation\<close>, so the theorems below speak about fixed-point text only.
\<close>

definition Decimal :: "string \<Rightarrow> error + rat" where
  "Decimal s =
     (let (neg, body) = (case s of
                           c # r \<Rightarrow> if c = CHR ''-'' then (True, r)
                                    else if c = CHR ''+'' then (False, r)
                                    else (False, s)
                         | [] \<Rightarrow> (False, s));
          ip = takeWhile is_digit body;
          rest = dropWhile is_digit body;
          fp = (case rest of [] \<Rightarrow> Some []
                | c # f \<Rightarrow> if c = CHR ''.'' \<and> list_all is_digit f then Some f else None)
      in case fp of
           None \<Rightarrow> Inl InvalidOperation
         | Some f \<Rightarrow>
             if ip = [] \<and> f = [] then Inl InvalidOperation
             else
               let v = of_int (int_of_digits ip) + of_int (int_of_digits f) / 10 ^ length f
               in Inr (if neg then - v else v))"

text \<open>\<^verbatim>\<open>steem_amount.split(' ')[0]\<close> is the text before the first space.\<close>

definition amount :: "string \<Rightarrow> error + rat" where
  "amount steem_amount = Decimal (takeWhile (\<lambda>c. c \<noteq> CHR '' '') steem_amount)"

text \<open>
  The withdrawal counters arrive from JSON as integers or as decimal text;
  \<^verbatim>\<open>int(x)\<close> takes both. On text: an optional sign and at least one digit.
\<close>

datatype json = JInt int | JStr string

fun py_int :: "json \<Rightarrow> error + int" where
  "py_int (JInt i) = Inr i"
| "py_int (JStr s) =
     (let (neg, body) = (case s of
                           c # r \<Rightarrow> if c = CHR ''-'' then (True, r)
                                    else if c = CHR ''+'' then (False, r)
                                    else (False, s)
                         | [] \<Rightarrow> (False, s))
      in if body \<noteq> [] \<and> list_all is_digit body
         then Inr (if neg then - int_of_digits body else int_of_digits body)
         else Inl ValueError)"

subsection \<open>Timestamps\<close>

text \<open>
  A \<^verbatim>\<open>datetime\<close> is a number of microseconds, counted from the start of day 0 of
  Python's proleptic Gregorian ordinal (0001-01-01 is day 1). Only differences of two
  such values are used.
\<close>

type_synonym datetime = int

definition is_leap :: "int \<Rightarrow> bool" where
  "is_leap y = (y mod 4 = 0 \<and> (y mod 100 \<noteq> 0 \<or> y mod 400 = 0))"

definition days_in_month :: "int \<Rightarrow> int \<Rightarrow> int" where
  "days_in_month y m =
     (if m = 2 then (if is_leap y then 29 else 28)
      else if m = 4 \<or> m = 6 \<or> m = 9 \<or> m = 11 then 30 else 31)"

definition days_before_year :: "int \<Rightarrow> int" where
  "days_before_year y = (let p = y - 1 in p * 365 + p div 4 - p div 100 + p div 400)"

definition days_before_month :: "int \<Rightarrow> int \<Rightarrow> int" where
  "days_before_month y m = sum_list (map (days_in_month y) [1..m - 1])"

definition mk_datetime :: "int \<Rightarrow> int \<Rightarrow> int \<Rightarrow> int \<Rightarrow> int \<Rightarrow> int \<Rightarrow> error + datetime" where
  "mk_datetime y m d hh mm ss =
     (if 1 \<le> y \<and> y \<le> 9999 \<and> 1 \<le> m \<and> m \<le> 12 \<and> 1 \<le> d \<and> d \<le> days_in_month y m
         \<and> 0 \<le> hh \<and> hh \<le> 23 \<and> 0 \<le> mm \<and> mm \<le> 59 \<and> 0 \<le> ss \<and> ss \<le> 59
      then Inr (((((days_before_year y + days_before_month y m + d) * 24 + hh) * 60 + mm) * 60
                   + ss) * 1000000)
      else Inl ValueError)"

text \<open>
  One numeric field of \<^verbatim>\<open>strptime\<close>: the two-digit alternatives of the directive's
  pattern are tried first, then the one-digit alternative.
\<close>

definition num_field ::
  "(int \<Rightarrow> int \<Rightarrow> bool) \<Rightarrow> (int \<Rightarrow> bool) \<Rightarrow> string \<Rightarrow> (int \<times> string) option" where
  "num_field two one s =
     (let single = (case s of
                      a # r \<Rightarrow> (case digit_val a of
                                  Some x \<Rightarrow> if one x then Some (x, r) else None
                                | None \<Rightarrow> None)
                    | [] \<Rightarrow> None)
      in case s of
           a # b # r \<Rightarrow>
             (case (digit_val a, digit_val b) of
                (Some x, Some y) \<Rightarrow> if two x y then Some (10 * x + y, r) else single
              | _ \<Rightarrow> single)
         | _ \<Rightarrow> single)"

definition year_field :: "string \<Rightarrow> (int \<times> string) option" where
  \<comment> \<open>\<^verbatim>\<open>%Y\<close>: exactly four digits\<close>
  "year_field s =
     (case s of
        a # b # c # d # r \<Rightarrow>
          if list_all is_digit [a, b, c, d] then Some (int_of_digits [a, b, c, d], r) else None
      | _ \<Rightarrow> None)"

definition month_field :: "string \<Rightarrow> (int \<times> string) option" where
  \<comment> \<open>\<^verbatim>\<open>%m\<close>: 1[0-2] | 0[1-9] | [1-9]\<close>
  "month_field = num_field (\<lambda>x y. (x = 1 \<and> y \<le> 2) \<or> (x = 0 \<and> 1 \<le> y)) (\<lambda>x. 1 \<le> x)"

definition day_field :: "string \<Rightarrow> (int \<times> string) option" where
  \<comment> \<open>\<^verbatim>\<open>%d\<close>: 3[0-1] | [1-2]\d | 0[1-9] | [1-9] | space [1-9]\<close>
  "day_field s =
     (case num_field (\<lambda>x y. (x = 3 \<and> y \<le> 1) \<or> x = 1 \<or> x = 2 \<or> (x = 0 \<and> 1 \<le> y))
                     (\<lambda>x. 1 \<le> x) s of
        Some v \<Rightarrow> Some v
      | None \<Rightarrow>
          (case s of
             a # b # r \<Rightarrow>
               (case digit_val b of
                  Some y \<Rightarrow> if a = CHR '' '' \<and> 1 \<le> y then Some (y, r) else None
                | None \<Rightarrow> None)
           | _ \<Rightarrow> None))"

definition hour_field :: "string \<Rightarrow> (int \<times> string) option" where
  \<comment> \<open>\<^verbatim>\<open>%H\<close>: 2[0-3] | [0-1]\d | \d\<close>
  "hour_field = num_field (\<lambda>x y. (x = 2 \<and> y \<le> 3) \<or> x \<le> 1) (\<lambda>x. True)"

definition minute_field :: "string \<Rightarrow> (int \<times> string) option" where
  \<comment> \<open>\<^verbatim>\<open>%M\<close>: [0-5]\d | \d\<close>
  "minute_field = num_field (\<lambda>x y. x \<le> 5) (\<lambda>x. True)"

definition second_field :: "string \<Rightarrow> (int \<times> string) option" where
  \<comment> \<open>\<^verbatim>\<open>%S\<close>: 6[0-1] | [0-5]\d | \d\<close>
  "second_field = num_field (\<lambda>x y. (x = 6 \<and> y \<le> 1) \<or> x \<le> 5) (\<lambda>x. True)"

definition literal :: "char list \<Rightarrow> string \<Rightarrow> string option" where
  \<comment> \<open>one literal character of the format; the pattern is compiled ignoring case\<close>
  "literal cs s = (case s of c # r \<Rightarrow> if c \<in> set cs then Some r else None | [] \<Rightarrow> None)"

text \<open>
  \<^verbatim>\<open>datetime.strptime(date, '%Y-%m-%dT%H:%M:%S')\<close>. The separators are not digits, so
  the first alternative of a field that matches is the only one after which the next
  separator can match; text left over after the seconds is a \<open>ValueError\<close>, and so is
  a date that does not exist.
\<close>

definition strptime :: "string \<Rightarrow> error + datetime" where
  "strptime date =
     (case Option.bind (year_field date) (\<lambda>(y, s1).
           Option.bind (literal ''-'' s1) (\<lambda>s2.
           Option.bind (month_field s2) (\<lambda>(m, s3).
           Option.bind (literal ''-'' s3) (\<lambda>s4.
           Option.bind (day_field s4) (\<lambda>(d, s5).
           Option.bind (literal ''Tt'' s5) (\<lambda>s6.
           Option.bind (hour_field s6) (\<lambda>(hh, s7).
           Option.bind (literal '':'' s7) (\<lambda>s8.
           Option.bind (minute_field s8) (\<lambda>(mm, s9).
           Option.bind (literal '':'' s9) (\<lambda>s10.
           Option.bind (second_field s10) (\<lambda>(ss, s11).
             if s11 = [] then Some (y, m, d, hh, mm, ss) else None))))))))))) of
        None \<Rightarrow> Inl ValueError
      | Some (y, m, d, hh, mm, ss) \<Rightarrow> mk_datetime y m d hh mm ss)"

definition days_since :: "datetime \<Rightarrow> string \<Rightarrow> error + int" where
  \<comment> \<open>\<open>today\<close> is the reading of \<^verbatim>\<open>datetime.today()\<close>; \<^verbatim>\<open>interval.days\<close> rounds down\<close>
  "days_since today date =
     and_then (strptime date) (\<lambda>t. Inr ((today - t) div 86400000000))"

text \<open>Python compares text by code point, position by position.\<close>

fun str_gt :: "string \<Rightarrow> string \<Rightarrow> bool" where
  "str_gt [] ys = False"
| "str_gt (x # xs) [] = True"
| "str_gt (x # xs) (y # ys) =
     (if (of_char y :: nat) < of_char x then True
      else if (of_char x :: nat) < of_char y then False
      else str_gt xs ys)"

definition py_max :: "string \<Rightarrow> string list \<Rightarrow> string" where
  \<comment> \<open>\<^verbatim>\<open>max(a, b, ...)\<close>: the first of the largest arguments\<close>
  "py_max a bs = foldl (\<lambda>m b. if str_gt b m then b else m) a bs"

subsection \<open>Account records\<close>

text \<open>
  An account as the chain's account query returns it, and the same record after the
  pager has attached the amount delegated to it.
\<close>

record account =
  name :: string
  vesting_shares :: string
  created :: string
  last_bandwidth_update :: string
  last_post :: string
  last_vote_time :: string
  vesting_withdraw_rate :: string
  withdrawn :: json
  to_withdraw :: json

record enriched = account +
  vesting_shares_from_delegator :: string

definition inactive_days :: "datetime \<Rightarrow> 'a account_scheme \<Rightarrow> error + int" where
  "inactive_days today account =
     days_since today
       (py_max (last_bandwidth_update account)
               [created account, last_post account, last_vote_time account])"

subsection \<open>The delegator\<close>

text \<open>
  The chain client. The two property reads return the amounts the constructor uses;
  the delegation query takes the delegator, the cursor as passed (\<open>None\<close> is Python's
  \<^verbatim>\<open>None\<close>) and the page size.
\<close>

record delegation =
  delegatee :: string
  vesting_shares :: string

record global_props =
  total_vesting_fund_steem :: string
  total_vesting_shares :: string

record steem =
  get_dynamic_global_properties :: "error + global_props"
  get_chain_properties :: "error + string"   \<comment> \<open>the \<^verbatim>\<open>account_creation_fee\<close> entry\<close>
  get_vesting_delegations :: "string \<Rightarrow> string option \<Rightarrow> int \<Rightarrow> error + delegation list"
  get_accounts :: "string list \<Rightarrow> error + account list"

record Delegator =
  client :: steem                \<comment> \<open>\<^verbatim>\<open>self.steem\<close>\<close>
  deplorables :: "string set"
  limit :: int
  logger_info :: "error option"  \<comment> \<open>what \<^verbatim>\<open>self.logger.info\<close> raises, if anything\<close>
  TARGET_VESTS :: rat
  MIN_VESTS_DELTA :: rat
  MIN_VESTS :: rat

definition TARGET_SP :: rat where
  "TARGET_SP = 15"

definition decimal_div :: "rat \<Rightarrow> rat \<Rightarrow> error + rat" where
  \<comment> \<open>\<^verbatim>\<open>Decimal / Decimal\<close>: a zero divisor raises (0/0 raises \<open>InvalidOperation\<close>)\<close>
  "decimal_div a b =
     (if b = 0 then Inl (if a = 0 then InvalidOperation else DivisionByZero) else Inr (a / b))"

definition init ::
  "steem \<Rightarrow> int \<Rightarrow> error option \<Rightarrow> string set \<Rightarrow> error + Delegator" where
  \<comment> \<open>\<^verbatim>\<open>__init__\<close> with a client given\<close>
  "init st page_size lg depl =
     and_then (get_dynamic_global_properties st) (\<lambda>global_props.
     and_then (amount (total_vesting_fund_steem global_props)) (\<lambda>vesting_steem.
     and_then (amount (total_vesting_shares global_props)) (\<lambda>vesting_shares.
     and_then (get_chain_properties st) (\<lambda>fee.
     and_then (amount fee) (\<lambda>account_creation_fee.
     and_then (decimal_div vesting_steem vesting_shares) (\<lambda>STEEM_PER_VEST.
     and_then (decimal_div TARGET_SP STEEM_PER_VEST) (\<lambda>target.
     and_then (decimal_div account_creation_fee STEEM_PER_VEST) (\<lambda>delta.
       Inr \<lparr> client = st, deplorables = depl, limit = page_size, logger_info = lg,
             TARGET_VESTS = target, MIN_VESTS_DELTA = delta, MIN_VESTS = delta * 10 \<rparr>))))))))"

subsection \<open>Numbers to text\<close>

text \<open>
  \<^verbatim>\<open>"%.6f VESTS" % x\<close> converts the \<^verbatim>\<open>Decimal\<close> to a double, the one nearest to it with
  ties to the even mantissa, and prints the double with six decimals, rounded to
  nearest on its exact value with ties to even.
\<close>

definition round_half_even :: "rat \<Rightarrow> int" where
  "round_half_even x =
     (let f = \<lfloor>x\<rfloor>; r = x - of_int f
      in if r < 1 / 2 then f else if 1 / 2 < r then f + 1 else if even f then f else f + 1)"

definition float_exponent :: "rat \<Rightarrow> int" where
  \<comment> \<open>for \<open>q > 0\<close>, the \<open>e\<close> with \<open>2 powi e \<le> q < 2 powi (e + 1)\<close>\<close>
  "float_exponent q =
     (let (a, b) = quotient_of q; k = bitlen a - bitlen b
      in if 2 powi k \<le> q then k else k - 1)"

definition float_of :: "rat \<Rightarrow> rat" where
  \<comment> \<open>\<^verbatim>\<open>float(x)\<close> for \<open>x \<ge> 0\<close>: 53 bits of mantissa, exponents from -1022 (below, the
      spacing stays that of the smallest normal numbers); a result of \<open>2 powi 1024\<close>
      or more, one whose exponent is 1024 or more, stands for \<^verbatim>\<open>inf\<close>\<close>
  "float_of q =
     (if q = 0 then 0
      else let ulp = 2 powi (max (float_exponent q) (- 1022) - 52)
           in of_int (round_half_even (q / ulp)) * ulp)"

function dec_digits :: "int \<Rightarrow> string" where
  "dec_digits n =
     (if n < 10 then [char_of (48 + n)] else dec_digits (n div 10) @ [char_of (48 + n mod 10)])"
  by pat_completeness auto
termination
  by (relation "measure nat") auto

definition frac_digits :: "int \<Rightarrow> string" where
  "frac_digits f = map (\<lambda>k. char_of (48 + (f div 10 ^ k) mod 10)) [5, 4, 3, 2, 1, 0]"

definition micro_vests :: "rat \<Rightarrow> int" where
  \<comment> \<open>the magnitude that is printed, in millionths\<close>
  "micro_vests x = round_half_even (float_of \<bar>x\<bar> * 1000000)"

definition render_vests :: "rat \<Rightarrow> string" where
  \<comment> \<open>\<^verbatim>\<open>"%.6f VESTS" % x\<close>\<close>
  "render_vests x =
     (if x < 0 then ''-'' else []) @
     (if 1024 \<le> float_exponent (float_of \<bar>x\<bar>) then ''inf''
      else dec_digits (micro_vests x div 1000000) @ ''.'' @
           frac_digits (micro_vests x mod 1000000))
     @ '' VESTS''"

definition rendered_value :: "rat \<Rightarrow> rat" where
  \<comment> \<open>the number that the text \<open>render_vests x\<close> denotes\<close>
  "rendered_value x =
     (if x < 0 then - of_int (micro_vests x) else of_int (micro_vests x)) / 1000000"

subsection \<open>The sizing policy\<close>

record decision =
  name :: string
  shares :: string
  delta_vests :: rat
  new_vests :: string
  old_vests :: string

definition float_1e_6 :: rat where
  \<comment> \<open>the binary double written \<^verbatim>\<open>0.000001\<close>; a \<^verbatim>\<open>Decimal\<close> is compared with it exactly\<close>
  "float_1e_6 = 4722366482869645 / 4722366482869645213696"

definition candidate_vests ::
  "Delegator \<Rightarrow> datetime \<Rightarrow> enriched \<Rightarrow> rat \<Rightarrow> error + rat" where
  \<comment> \<open>lines 87-95: the first value of \<^verbatim>\<open>new_delegated_vests\<close>\<close>
  "candidate_vests self today acct account_vests =
     (if account.name acct \<in> deplorables self then Inr 0
      else if account_vests \<ge> TARGET_VESTS self then Inr 0
      else
        and_then (inactive_days today acct) (\<lambda>days.
          if days > 90
          then Inr (max (MIN_VESTS self) (TARGET_VESTS self / 3 - account_vests))
          else Inr (TARGET_VESTS self - account_vests)))"

definition skip_increase :: "enriched \<Rightarrow> rat \<Rightarrow> error + bool" where
  \<comment> \<open>lines 97-100; \<^verbatim>\<open>or\<close> evaluates its right operand only when the left one is false\<close>
  "skip_increase acct account_vests =
     and_then (amount (vesting_withdraw_rate acct)) (\<lambda>rate.
       if rate > float_1e_6 then Inr True
       else and_then (py_int (withdrawn acct)) (\<lambda>w.
         if w > 0 then Inr True
         else and_then (py_int (to_withdraw acct)) (\<lambda>tw.
           if tw > 0 then Inr True else Inr (account_vests < 200))))"

definition settle :: "Delegator \<Rightarrow> enriched \<Rightarrow> rat \<Rightarrow> rat \<Rightarrow> bool \<Rightarrow> decision option" where
  \<comment> \<open>lines 102-126, once the amounts are read: \<open>new0\<close> is the value of
      \<^verbatim>\<open>new_delegated_vests\<close> after line 95; \<open>None\<close> is \<^verbatim>\<open>return None\<close>\<close>
  "settle self acct old_delegated_vests new0 skip =
     (if new0 > old_delegated_vests \<and> skip then None
      else
        let new_delegated_vests =
              (if new0 > 0 \<and> new0 < MIN_VESTS self then MIN_VESTS self
               else if new0 = 0 \<and> old_delegated_vests < MIN_VESTS_DELTA self
               then max (MIN_VESTS self) (old_delegated_vests + MIN_VESTS_DELTA self)
               else new0);
            delta = new_delegated_vests - old_delegated_vests
        in if \<bar>delta\<bar> < MIN_VESTS_DELTA self then None
           else Some \<lparr> name = account.name acct,
                        shares = account.vesting_shares acct,
                        delta_vests = delta,
                        new_vests = render_vests new_delegated_vests,
                        old_vests = vesting_shares_from_delegator acct \<rparr>)"

definition vests_to_delegate ::
  "Delegator \<Rightarrow> datetime \<Rightarrow> enriched \<Rightarrow> error + decision option" where
  "vests_to_delegate self today acct =
     and_then (amount (account.vesting_shares acct)) (\<lambda>account_vests.
     and_then (amount (vesting_shares_from_delegator acct)) (\<lambda>old_delegated_vests.
     and_then (candidate_vests self today acct account_vests) (\<lambda>new0.
     and_then (skip_increase acct account_vests) (\<lambda>skip.
       Inr (settle self acct old_delegated_vests new0 skip)))))"

definition get_delegation_deltas_from ::
  "Delegator \<Rightarrow> (nat \<Rightarrow> datetime) \<Rightarrow> nat \<Rightarrow> enriched list \<Rightarrow> error + decision option list" where
  \<comment> \<open>the list comprehension of line 129, from the account at position \<open>i\<close> on; the first
      account that raises ends it. \<open>clock i\<close> is what \<^verbatim>\<open>datetime.today()\<close> reads while
      the account at position \<open>i\<close> is sized.\<close>
  "get_delegation_deltas_from self clock i accounts =
     fold (\<lambda>(k, account) acc.
             and_then acc (\<lambda>deltas.
             and_then (vests_to_delegate self (clock k) account) (\<lambda>d. Inr (deltas @ [d]))))
          (zip [i..<i + length accounts] accounts) (Inr [])"

definition get_delegation_deltas ::
  "Delegator \<Rightarrow> (nat \<Rightarrow> datetime) \<Rightarrow> enriched list \<Rightarrow> error + decision list" where
  "get_delegation_deltas self clock accounts =
     and_then (get_delegation_deltas_from self clock 0 accounts) (\<lambda>deltas.
       Inr (map the (filter (\<lambda>item. item \<noteq> None) deltas)))"

subsection \<open>The pager\<close>

definition truthy :: "string option \<Rightarrow> bool" where
  \<comment> \<open>\<^verbatim>\<open>None\<close> and the empty text are false\<close>
  "truthy last_idx = (case last_idx of None \<Rightarrow> False | Some s \<Rightarrow> s \<noteq> [])"

definition shift_result :: "string option \<Rightarrow> delegation list \<Rightarrow> delegation list" where
  \<comment> \<open>lines 67-70\<close>
  "shift_result last_idx results =
     (if truthy last_idx \<and> results \<noteq> [] \<and> Some (delegatee (hd results)) = last_idx
      then tl results else results)"

definition delegations_keys :: "delegation list \<Rightarrow> string list" where
  \<comment> \<open>the keys of the dictionary of line 75, in the order of their first insertion\<close>
  "delegations_keys results = rev (remdups (rev (map delegatee results)))"

definition delegations_get :: "delegation list \<Rightarrow> string \<Rightarrow> string option" where
  \<comment> \<open>the dictionary of line 75: a later record of a delegatee replaces an earlier one\<close>
  "delegations_get results =
     map_of (rev (map (\<lambda>r. (delegatee r, delegation.vesting_shares r)) results))"

definition with_delegation :: "account \<Rightarrow> string \<Rightarrow> enriched" where
  "with_delegation acct v =
     \<lparr> account.name = account.name acct,
       account.vesting_shares = account.vesting_shares acct,
       created = created acct, last_bandwidth_update = last_bandwidth_update acct,
       last_post = last_post acct, last_vote_time = last_vote_time acct,
       vesting_withdraw_rate = vesting_withdraw_rate acct,
       withdrawn = withdrawn acct, to_withdraw = to_withdraw acct,
       vesting_shares_from_delegator = v \<rparr>"

fun attach :: "(string \<Rightarrow> string option) \<Rightarrow> account list \<Rightarrow> error + enriched list" where
  \<comment> \<open>lines 77-78\<close>
  "attach delegations [] = Inr []"
| "attach delegations (acct # accounts) =
     (case delegations (account.name acct) of
        None \<Rightarrow> Inl KeyError
      | Some v \<Rightarrow>
          and_then (attach delegations accounts) (\<lambda>rest. Inr (with_delegation acct v # rest)))"

definition page_of_results ::
  "Delegator \<Rightarrow> delegation list \<Rightarrow> error + (enriched list \<times> string option)" where
  \<comment> \<open>lines 72-80, on the records that are left\<close>
  "page_of_results self results =
     (if results = [] then Inr ([], None)
      else
        and_then (get_accounts (client self) (delegations_keys results)) (\<lambda>accounts.
        and_then (attach (delegations_get results) accounts) (\<lambda>accounts'.
          Inr (accounts', Some (delegatee (last results))))))"

definition get_delegated_accounts ::
  "Delegator \<Rightarrow> string \<Rightarrow> string option \<Rightarrow> error + (enriched list \<times> string option)" where
  "get_delegated_accounts self account last_idx =
     and_then (get_vesting_delegations (client self) account last_idx (limit self)) (\<lambda>results.
       page_of_results self (shift_result last_idx results))"

subsection \<open>One page: fetch, decide, submit\<close>

text \<open>
  The write path is observed as the list of calls made on the transaction builder, the
  logging sink and the clock, in order. A call that raises is in the list: it was made.
\<close>

datatype operation = DelegateVestingShares string string string
  \<comment> \<open>delegator, vesting shares, delegatee\<close>

datatype event =
    NewTransaction int          \<comment> \<open>\<^verbatim>\<open>TransactionBuilder(..., expiration)\<close>\<close>
  | AppendOps "operation list"
  | AppendWif string
  | Sign
  | Broadcast
  | LogInfo
  | Sleep rat

record tx_builder =
  appendWif_raises :: "string \<Rightarrow> error option"
  sign_raises :: "error option"
  broadcast_result :: "error + string"

fun append_wifs :: "tx_builder \<Rightarrow> string list \<Rightarrow> event list \<times> error option" where
  \<comment> \<open>line 159\<close>
  "append_wifs tx [] = ([], None)"
| "append_wifs tx (wif # wifs) =
     (case appendWif_raises tx wif of
        Some e \<Rightarrow> ([AppendWif wif], Some e)
      | None \<Rightarrow> (let (evs, r) = append_wifs tx wifs in (AppendWif wif # evs, r)))"

definition submit ::
  "Delegator \<Rightarrow> tx_builder \<Rightarrow> string \<Rightarrow> int \<Rightarrow> bool \<Rightarrow> string list \<Rightarrow> decision list
     \<Rightarrow> event list \<times> error option" where
  \<comment> \<open>lines 147-167\<close>
  "submit self tx delegator expiration dry_run wifs deltas =
     (let delegation_ops =
            map (\<lambda>delta. DelegateVestingShares delegator (new_vests delta) (decision.name delta))
                deltas;
          ev1 = [NewTransaction expiration, AppendOps delegation_ops];
          (ev2, r2) = append_wifs tx wifs
      in case r2 of
           Some e \<Rightarrow> (ev1 @ ev2, Some e)
         | None \<Rightarrow>
             let (ev3, r3) = (if wifs \<noteq> [] then ([Sign], sign_raises tx) else ([], None))
             in case r3 of
                  Some e \<Rightarrow> (ev1 @ ev2 @ ev3, Some e)
                | None \<Rightarrow>
                    if \<not> dry_run then
                      (case broadcast_result tx of
                         Inl e \<Rightarrow> (ev1 @ ev2 @ ev3 @ [Broadcast], Some e)
                       | Inr result \<Rightarrow>
                           (case logger_info self of
                              Some e \<Rightarrow> (ev1 @ ev2 @ ev3 @ [Broadcast, LogInfo], Some e)
                            | None \<Rightarrow>
                                (ev1 @ ev2 @ ev3 @
                                   [Broadcast, LogInfo, Sleep (3 * of_nat (length deltas) / 100)],
                                 None)))
                    else (ev1 @ ev2 @ ev3, None))"

definition delegate ::
  "Delegator \<Rightarrow> tx_builder \<Rightarrow> (nat \<Rightarrow> datetime) \<Rightarrow> string \<Rightarrow> string option \<Rightarrow> int \<Rightarrow> bool
     \<Rightarrow> string list \<Rightarrow> event list \<times> (error + decision list \<times> string option)" where
  "delegate self tx clock delegator last_idx expiration dry_run wifs =
     (case get_delegated_accounts self delegator last_idx of
        Inl e \<Rightarrow> ([], Inl e)
      | Inr (accounts, last_idx') \<Rightarrow>
          if accounts = [] then ([], Inr ([], last_idx'))
          else
            (case get_delegation_deltas self clock accounts of
               Inl e \<Rightarrow> ([], Inl e)
             | Inr deltas \<Rightarrow>
                 if deltas = [] then ([], Inr ([], last_idx'))
                 else
                   (case submit self tx delegator expiration dry_run wifs deltas of
                      (evs, Some e) \<Rightarrow> (evs, Inl e)
                    | (evs, None) \<Rightarrow> (evs, Inr (deltas, last_idx')))))"

subsection \<open>Sample data\<close>

text \<open>
  A delegator with the thresholds of the specification's examples (target 1000, minimum
  change 1, minimum delegation 10), one excluded name, and a clock reading of
  2018-01-20T00:00:00.
\<close>

definition offline :: steem where
  "offline =
     \<lparr> get_dynamic_global_properties = Inl (ExternalError ''offline''),
       get_chain_properties = Inl (ExternalError ''offline''),
       get_vesting_delegations = (\<lambda>account last_idx n. Inl (ExternalError ''offline'')),
       get_accounts = (\<lambda>names. Inl (ExternalError ''offline'')) \<rparr>"

definition demo :: Delegator where
  "demo =
     \<lparr> client = offline, deplorables = {''spammer''}, limit = 100, logger_info = None,
       TARGET_VESTS = 1000, MIN_VESTS_DELTA = 1, MIN_VESTS = 10 \<rparr>"

definition jan20 :: datetime where
  "jan20 = 63652089600000000"

definition chain_account :: "string \<Rightarrow> string \<Rightarrow> string \<Rightarrow> json \<Rightarrow> account" where
  \<comment> \<open>name, own vesting shares, time of the last vote, cumulative withdrawn\<close>
  "chain_account nm own voted wd =
     \<lparr> account.name = nm, account.vesting_shares = own,
       created = ''2016-03-24T17:00:21'',
       last_bandwidth_update = ''2017-08-30T08:00:03'',
       last_post = ''2017-07-04T12:00:00'',
       last_vote_time = voted,
       vesting_withdraw_rate = ''0.000000 VESTS'',
       withdrawn = wd, to_withdraw = JStr ''0'' \<rparr>"

definition alice :: enriched where
  \<comment> \<open>account A of the specification: own stake 200, nothing delegated yet\<close>
  "alice = with_delegation
             (chain_account ''alice'' ''200.000000 VESTS'' ''2018-01-10T09:15:00'' (JInt 0))
             ''0.000000 VESTS''"

definition bob :: enriched where
  \<comment> \<open>account B of the specification: own stake 900, 150 delegated\<close>
  "bob = with_delegation
           (chain_account ''bob'' ''900.000000 VESTS'' ''2018-01-10T09:15:00'' (JInt 0))
           ''150.000000 VESTS''"

definition carol :: enriched where
  \<comment> \<open>account C of the specification: last seen 140 days ago, own stake 50, withdrawing\<close>
  "carol = with_delegation
             (chain_account ''carol'' ''50.000000 VESTS'' ''2017-09-01T10:00:00'' (JInt 7))
             ''0.000000 VESTS''"

definition dave :: enriched where
  \<comment> \<open>own stake above the target, 150 delegated\<close>
  "dave = with_delegation
            (chain_account ''dave'' ''2000.000000 VESTS'' ''2018-01-10T09:15:00'' (JInt 0))
            ''150.000000 VESTS''"

definition erin :: enriched where
  \<comment> \<open>own stake above the target, a delegation below the minimum change\<close>
  "erin = with_delegation
            (chain_account ''erin'' ''2000.000000 VESTS'' ''2018-01-10T09:15:00'' (JInt 0))
            ''0.500000 VESTS''"

definition frank :: enriched where
  \<comment> \<open>as \<open>erin\<close>, and withdrawing\<close>
  "frank = with_delegation
             (chain_account ''frank'' ''2000.000000 VESTS'' ''2018-01-10T09:15:00'' (JInt 5))
             ''0.500000 VESTS''"

definition spammer :: enriched where
  \<comment> \<open>an excluded account with 150 delegated\<close>
  "spammer = with_delegation
               (chain_account ''spammer'' ''120.000000 VESTS'' ''2018-01-10T09:15:00'' (JInt 0))
               ''150.000000 VESTS''"

definition gail :: enriched where
  \<comment> \<open>last seen 140 days ago, own stake 200, nothing delegated yet\<close>
  "gail = with_delegation
            (chain_account ''gail'' ''200.000000 VESTS'' ''2017-09-01T10:00:00'' (JInt 0))
            ''0.000000 VESTS''"




text \<open>
  A chain on which one vesting share is worth 16384: the constructor computes the
  target 0.00091552734375 and the minimum change 0.00000006103515625, less than one
  unit of the six-decimal text. The account \<open>ivan\<close> owns nothing and has 0.01 delegated.
\<close>

definition tiny_chain :: steem where
  "tiny_chain =
     \<lparr> get_dynamic_global_properties =
         Inr \<lparr> total_vesting_fund_steem = ''16384.000 STEEM'',
               total_vesting_shares = ''1.000000 VESTS'' \<rparr>,
       get_chain_properties = Inr ''0.001 STEEM'',
       get_vesting_delegations = (\<lambda>account last_idx n. Inr []),
       get_accounts = (\<lambda>names. Inr []) \<rparr>"

definition tiny :: Delegator where
  "tiny =
     \<lparr> client = tiny_chain, deplorables = {}, limit = 100, logger_info = None,
       TARGET_VESTS = 15 / 16384, MIN_VESTS_DELTA = 1 / 16384000,
       MIN_VESTS = 1 / 1638400 \<rparr>"

definition ivan :: enriched where
  "ivan = with_delegation
            (chain_account ''ivan'' ''0.000000 VESTS'' ''2018-01-10T09:15:00'' (JInt 0))
            ''0.010000 VESTS''"

text \<open>
  A chain client that serves the delegations of one delegator in pages that start at
  the cursor, the entry under the cursor included, and a transaction builder on which
  no call raises.
\<close>

definition testnet :: steem where
  "testnet =
     \<lparr> get_dynamic_global_properties = Inl (ExternalError ''offline''),
       get_chain_properties = Inl (ExternalError ''offline''),
       get_vesting_delegations =
         (\<lambda>account last_idx n.
            Inr (if last_idx = Some ''dave''
                 then [\<lparr> delegatee = ''dave'', vesting_shares = ''150.000000 VESTS'' \<rparr>,
                       \<lparr> delegatee = ''bob'', vesting_shares = ''150.000000 VESTS'' \<rparr>]
                 else if last_idx = Some ''bob''
                 then [\<lparr> delegatee = ''bob'', vesting_shares = ''150.000000 VESTS'' \<rparr>]
                 else [\<lparr> delegatee = ''erin'', vesting_shares = ''0.500000 VESTS'' \<rparr>,
                       \<lparr> delegatee = ''dave'', vesting_shares = ''150.000000 VESTS'' \<rparr>])),
       get_accounts =
         (\<lambda>names.
            Inr (map (\<lambda>nm. chain_account nm
                              (if nm = ''bob'' then ''900.000000 VESTS''
                               else ''2000.000000 VESTS'')
                              ''2018-01-10T09:15:00'' (JInt 0))
                     names)) \<rparr>"

definition redeemer :: Delegator where
  "redeemer = demo \<lparr> client := testnet \<rparr>"

definition builder :: tx_builder where
  "builder = \<lparr> appendWif_raises = (\<lambda>wif. None), sign_raises = None,
               broadcast_result = Inr ''ok'' \<rparr>"

section \<open>Properties\<close>

subsection \<open>Sequencing\<close>

lemma and_then_Inr_iff: "and_then m f = Inr r \<longleftrightarrow> (\<exists>v. m = Inr v \<and> f v = Inr r)"
  by (cases m) (simp_all add: and_then_def)

lemma and_then_Inr [simp]: "and_then (Inr v) f = f v"
  by (simp add: and_then_def)

lemma and_then_Inl [simp]: "and_then (Inl e) f = Inl e"
  by (simp add: and_then_def)

subsection \<open>Rounding to a double and to six decimals\<close>

text \<open>
  Both roundings are monotone, so the printed magnitude \<open>micro_vests\<close> is monotone in
  the magnitude that is printed.
\<close>

lemma round_half_even_of_int [simp]: "round_half_even (of_int n) = n"
  by (simp add: round_half_even_def)

lemma round_half_even_floor: "\<lfloor>x\<rfloor> \<le> round_half_even x \<and> round_half_even x \<le> \<lfloor>x\<rfloor> + 1"
  by (simp add: round_half_even_def Let_def)

lemma round_half_even_mono: "x \<le> y \<Longrightarrow> round_half_even x \<le> round_half_even y"
proof -
  assume le: "x \<le> y"
  have fl: "\<lfloor>x\<rfloor> \<le> \<lfloor>y\<rfloor>" using le by (rule floor_mono)
  show ?thesis
  proof (cases "\<lfloor>x\<rfloor> = \<lfloor>y\<rfloor>")
    case True
    then show ?thesis using le by (auto simp: round_half_even_def Let_def)
  next
    case False
    then have "\<lfloor>x\<rfloor> + 1 \<le> \<lfloor>y\<rfloor>" using fl by linarith
    then show ?thesis
      using round_half_even_floor [of x] round_half_even_floor [of y] by linarith
  qed
qed

lemma round_half_even_error: "\<bar>of_int (round_half_even x) - x\<bar> \<le> 1 / 2"
proof -
  have "of_int \<lfloor>x\<rfloor> \<le> x" "x < of_int \<lfloor>x\<rfloor> + 1"
    by linarith+
  then show ?thesis
    by (auto simp: round_half_even_def Let_def abs_le_iff)
qed

lemma float_exponent_bounds:
  assumes "0 < q"
  shows "2 powi float_exponent q \<le> q" and "q < 2 powi (float_exponent q + 1)"
proof -
  obtain a b where ab: "quotient_of q = (a, b)" by (cases "quotient_of q")
  then have b: "0 < b" and q: "q = of_int a / of_int b"
    using quotient_of_denom_pos quotient_of_div by blast+
  have a: "0 < a" using assms b q by (simp add: zero_less_divide_iff)
  define la where "la = bitlen a"
  define lb where "lb = bitlen b"
  have la1: "1 \<le> la" and lb1: "1 \<le> lb"
    using a b by (auto simp: la_def lb_def bitlen_alt_def)
  have A: "(2::rat) powi (la - 1) \<le> of_int a" "of_int a < (2::rat) powi la"
  proof -
    have "(2::int) ^ nat (la - 1) \<le> a" "a < (2::int) ^ nat la"
      using bitlen_bounds [OF a] by (simp_all add: la_def)
    then have "of_int ((2::int) ^ nat (la - 1)) \<le> (of_int a :: rat)"
      "(of_int a :: rat) < of_int ((2::int) ^ nat la)"
      by (simp_all only: of_int_le_iff of_int_less_iff)
    then show "(2::rat) powi (la - 1) \<le> of_int a" "of_int a < (2::rat) powi la"
      using la1 by (simp_all add: power_int_nonneg_exp)
  qed
  have B: "(2::rat) powi (lb - 1) \<le> of_int b" "of_int b < (2::rat) powi lb"
  proof -
    have "(2::int) ^ nat (lb - 1) \<le> b" "b < (2::int) ^ nat lb"
      using bitlen_bounds [OF b] by (simp_all add: lb_def)
    then have "of_int ((2::int) ^ nat (lb - 1)) \<le> (of_int b :: rat)"
      "(of_int b :: rat) < of_int ((2::int) ^ nat lb)"
      by (simp_all only: of_int_le_iff of_int_less_iff)
    then show "(2::rat) powi (lb - 1) \<le> of_int b" "of_int b < (2::rat) powi lb"
      using lb1 by (simp_all add: power_int_nonneg_exp)
  qed
  have pos: "\<And>k. (0::rat) < 2 powi k" by simp
  have lo: "(2::rat) powi (la - lb - 1) \<le> q"
  proof -
    have "(2::rat) powi (la - lb - 1) = 2 powi (la - 1) / 2 powi lb"
      using power_int_diff [of "2::rat" "la - 1" lb] by (simp add: algebra_simps)
    also have "\<dots> \<le> of_int a / of_int b"
      by (rule frac_le) (use A B a b pos in \<open>auto intro: less_imp_le\<close>)
    finally show ?thesis by (simp add: q)
  qed
  have hi: "q < (2::rat) powi (la - lb + 1)"
  proof -
    have "of_int a / of_int b < (2::rat) powi la / 2 powi (lb - 1)"
      by (rule frac_less) (use A B a b pos in \<open>auto intro: less_imp_le\<close>)
    also have "\<dots> = 2 powi (la - lb + 1)"
      using power_int_diff [of "2::rat" la "lb - 1"] by (simp add: algebra_simps)
    finally show ?thesis by (simp add: q)
  qed
  have fe: "float_exponent q = (if 2 powi (la - lb) \<le> q then la - lb else la - lb - 1)"
    by (simp add: float_exponent_def ab la_def lb_def)
  show "2 powi float_exponent q \<le> q"
    using lo by (simp add: fe)
  show "q < 2 powi (float_exponent q + 1)"
    using hi by (simp add: fe)
qed



lemma round_half_even_nonneg: "0 \<le> x \<Longrightarrow> 0 \<le> round_half_even x"
  using round_half_even_mono [of 0 x] round_half_even_of_int [of 0] by simp

lemma float_of_nonneg: "0 \<le> q \<Longrightarrow> 0 \<le> float_of q"
  by (auto simp: float_of_def Let_def intro!: mult_nonneg_nonneg round_half_even_nonneg)

lemma float_of_upper:
  assumes "0 < q"
  shows "float_of q \<le> 2 powi (max (float_exponent q) (- 1022) + 1)"
proof -
  define e where "e = max (float_exponent q) (- 1022)"
  define u :: rat where "u = 2 powi (e - 52)"
  have u: "0 < u" by (simp add: u_def)
  have "q < 2 powi (float_exponent q + 1)" using float_exponent_bounds [OF assms] by simp
  also have "\<dots> \<le> 2 powi (e + 1)" by (intro power_int_increasing) (auto simp: e_def)
  finally have "q / u \<le> 2 powi (e + 1) / u" using u by (simp add: divide_right_mono)
  also have "2 powi (e + 1) / u = 2 powi 53"
    unfolding u_def using power_int_diff [of "2::rat" "e + 1" "e - 52"] by simp
  also have "\<dots> = of_int (2 ^ 53)" by simp
  finally have "round_half_even (q / u) \<le> 2 ^ 53"
    using round_half_even_mono [of "q / u" "of_int (2 ^ 53)"] by (simp only: round_half_even_of_int)
  then have "(of_int (round_half_even (q / u)) :: rat) \<le> of_int (2 ^ 53)"
    by (simp only: of_int_le_iff)
  then have "of_int (round_half_even (q / u)) * u \<le> of_int (2 ^ 53) * u"
    using u by (simp only: mult_le_cancel_right_pos)
  also have "of_int (2 ^ 53) * u = 2 powi 53 * 2 powi (e - 52)" by (simp add: u_def)
  also have "\<dots> = 2 powi (e + 1)"
    using power_int_add [of "2::rat" 53 "e - 52"] by (simp add: add.commute)
  finally show ?thesis
    using assms by (simp add: float_of_def Let_def e_def u_def)
qed




lemma micro_vests_nonneg: "0 \<le> micro_vests x"
  unfolding micro_vests_def
  by (intro round_half_even_nonneg mult_nonneg_nonneg float_of_nonneg) auto

subsection \<open>The printed text read back\<close>

text \<open>
  The text that \<open>render_vests\<close> prints for a value in the double range is read back by
  \<open>amount\<close> as \<open>rendered_value\<close>, which is monotone and, for magnitudes below \<open>2 ^ 33\<close>,
  less than one millionth away from the value.
\<close>

declare dec_digits.simps [simp del]

lemma digit_chars:
  "list_all (\<lambda>k. digit_val (char_of (48 + k)) = Some k
                 \<and> (of_char (char_of (48 + k)) :: int) - 48 = k)
            [0, 1, 2, 3, 4, 5, 6, 7, 8, 9 :: int]"
  by code_simp

lemma digit_char:
  fixes k :: int
  assumes "0 \<le> k" "k < 10"
  shows "digit_val (char_of (48 + k)) = Some k"
    and "(of_char (char_of (48 + k)) :: int) - 48 = k"
proof -
  have "k \<in> set [0, 1, 2, 3, 4, 5, 6, 7, 8, 9]"
    using assms by (simp; arith)
  then show "digit_val (char_of (48 + k)) = Some k"
    and "(of_char (char_of (48 + k)) :: int) - 48 = k"
    using digit_chars unfolding list_all_iff by blast+
qed

lemma is_digit_char: "0 \<le> k \<Longrightarrow> k < 10 \<Longrightarrow> is_digit (char_of (48 + (k :: int)))"
  by (simp add: is_digit_def digit_char)

lemma not_digit [simp]:
  "\<not> is_digit CHR ''.''" "\<not> is_digit CHR ''-''" "\<not> is_digit CHR ''+''" "\<not> is_digit CHR '' ''"
  by (simp_all add: is_digit_def digit_val_def)

lemma int_of_digits_snoc:
  "int_of_digits (ds @ [c]) = 10 * int_of_digits ds + (of_char c - 48)"
  by (simp add: int_of_digits_def)

lemma dec_digits_correct:
  "0 \<le> n \<Longrightarrow> list_all is_digit (dec_digits n) \<and> dec_digits n \<noteq> [] \<and>
     int_of_digits (dec_digits n) = n"
proof (induction n rule: dec_digits.induct)
  case (1 n)
  show ?case
  proof (cases "n < 10")
    case True
    then show ?thesis
      using 1(2) by (simp add: dec_digits.simps [of n] is_digit_char digit_char int_of_digits_def)
  next
    case False
    then have ih: "list_all is_digit (dec_digits (n div 10))"
      "int_of_digits (dec_digits (n div 10)) = n div 10"
      using 1 by auto
    have m: "0 \<le> n mod 10" "n mod 10 < 10" by auto
    show ?thesis
      using False ih m
      by (simp add: dec_digits.simps [of n] is_digit_char digit_char int_of_digits_snoc)
  qed
qed

lemma six_digits:
  fixes f :: int
  assumes "0 \<le> f" "f < 1000000"
  shows "((((f div 100000 mod 10 * 10 + f div 10000 mod 10) * 10 + f div 1000 mod 10) * 10
              + f div 100 mod 10) * 10 + f div 10 mod 10) * 10 + f mod 10 = f"
proof -
  define g1 where "g1 = f div 10"
  define g2 where "g2 = g1 div 10"
  define g3 where "g3 = g2 div 10"
  define g4 where "g4 = g3 div 10"
  define g5 where "g5 = g4 div 10"
  have d: "f div 100 = g2" "f div 1000 = g3" "f div 10000 = g4" "f div 100000 = g5"
    unfolding g1_def g2_def g3_def g4_def g5_def
    by (simp_all add: zdiv_zmult2_eq [symmetric])
  define a0 where "a0 = f mod 10"
  define a1 where "a1 = g1 mod 10"
  define a2 where "a2 = g2 mod 10"
  define a3 where "a3 = g3 mod 10"
  define a4 where "a4 = g4 mod 10"
  have s: "f = 10 * g1 + a0" "g1 = 10 * g2 + a1" "g2 = 10 * g3 + a2"
    "g3 = 10 * g4 + a3" "g4 = 10 * g5 + a4"
    unfolding g1_def g2_def g3_def g4_def g5_def a0_def a1_def a2_def a3_def a4_def by simp_all
  have "0 \<le> g5" "g5 < 10"
    using assms by (simp_all flip: d(4))
  then have t: "g5 mod 10 = g5" by simp
  have "10 * (10 * (10 * (10 * (10 * g5 + a4) + a3) + a2) + a1) + a0 = f"
    by (simp only: s [symmetric])
  then have "((((g5 * 10 + a4) * 10 + a3) * 10 + a2) * 10 + a1) * 10 + a0 = f"
    by (simp only: mult.commute)
  then show ?thesis
    unfolding a0_def a1_def a2_def a3_def a4_def
    by (simp only: d t g1_def [symmetric])
qed

lemma frac_digits_correct:
  assumes "0 \<le> f" "f < 1000000"
  shows "list_all is_digit (frac_digits f)" "length (frac_digits f) = 6"
    "int_of_digits (frac_digits f) = f"
proof -
  have d: "\<And>k. 0 \<le> (f div 10 ^ k) mod 10 \<and> (f div 10 ^ k) mod 10 < 10" by simp
  show "list_all is_digit (frac_digits f)"
    using d by (simp add: frac_digits_def is_digit_char)
  show "length (frac_digits f) = 6" by (simp add: frac_digits_def)
  have "int_of_digits (frac_digits f) =
          ((((f div 100000 mod 10 * 10 + f div 10000 mod 10) * 10 + f div 1000 mod 10) * 10
              + f div 100 mod 10) * 10 + f div 10 mod 10) * 10 + f mod 10"
    using d [of 5] d [of 4] d [of 3] d [of 2] d [of 1] d [of 0]
    by (simp add: frac_digits_def int_of_digits_def digit_char algebra_simps)
  also have "\<dots> = f" using assms by (rule six_digits)
  finally show "int_of_digits (frac_digits f) = f" .
qed

lemma Decimal_fixed_point:
  assumes "list_all is_digit ds" "ds \<noteq> []" "list_all is_digit fs"
  shows "Decimal (ds @ ''.'' @ fs) =
           Inr (of_int (int_of_digits ds) + of_int (int_of_digits fs) / 10 ^ length fs)"
    and "Decimal (''-'' @ ds @ ''.'' @ fs) =
           Inr (- (of_int (int_of_digits ds) + of_int (int_of_digits fs) / 10 ^ length fs))"
proof -
  obtain c r where cr: "ds = c # r" using assms(2) by (cases ds) auto
  then have c: "is_digit c" using assms(1) by simp
  then have ne: "c \<noteq> CHR ''-''" "c \<noteq> CHR ''+''" by auto
  have tw: "takeWhile is_digit (ds @ ''.'' @ fs) = ds"
    "dropWhile is_digit (ds @ ''.'' @ fs) = ''.'' @ fs"
    using assms(1) by (simp_all add: list_all_iff takeWhile_append2 dropWhile_append2)
  show "Decimal (ds @ ''.'' @ fs) =
           Inr (of_int (int_of_digits ds) + of_int (int_of_digits fs) / 10 ^ length fs)"
    using tw assms(2,3) ne by (simp add: Decimal_def cr)
  show "Decimal (''-'' @ ds @ ''.'' @ fs) =
           Inr (- (of_int (int_of_digits ds) + of_int (int_of_digits fs) / 10 ^ length fs))"
    using tw assms(2,3) by (simp add: Decimal_def)
qed

lemma overflow_iff:
  assumes "0 \<le> q"
  shows "1024 \<le> float_exponent (float_of q) \<longleftrightarrow> 2 powi 1024 \<le> float_of q"
proof (cases "float_of q = 0")
  case True
  have "float_exponent 0 = - 2" by code_simp
  then show ?thesis using True by simp
next
  case False
  then have p: "0 < float_of q" using float_of_nonneg [OF assms] by simp
  have b: "2 powi float_exponent (float_of q) \<le> float_of q"
    "float_of q < 2 powi (float_exponent (float_of q) + 1)"
    using float_exponent_bounds [OF p] by auto
  show ?thesis
  proof
    assume "1024 \<le> float_exponent (float_of q)"
    then have "(2::rat) powi 1024 \<le> 2 powi float_exponent (float_of q)"
      by (intro power_int_increasing) auto
    then show "2 powi 1024 \<le> float_of q" using b(1) by linarith
  next
    assume "2 powi 1024 \<le> float_of q"
    then have "(2::rat) powi 1024 < 2 powi (float_exponent (float_of q) + 1)"
      using b(2) by linarith
    then have "1024 < float_exponent (float_of q) + 1"
      using power_int_increasing [of "float_exponent (float_of q) + 1" 1024 "2::rat"]
      by (cases "1024 < float_exponent (float_of q) + 1") auto
    then show "1024 \<le> float_exponent (float_of q)" by simp
  qed
qed

lemma amount_suffix:
  assumes "\<forall>c \<in> set body. c \<noteq> CHR '' ''"
  shows "amount (body @ '' VESTS'') = Decimal body"
  using assms by (simp add: amount_def takeWhile_append2)

lemma is_digit_not_space: "is_digit c \<Longrightarrow> c \<noteq> CHR '' ''"
  by auto

lemma amount_render_vests:
  assumes "float_of \<bar>x\<bar> < 2 powi 1024"
  shows "amount (render_vests x) = Inr (rendered_value x)"
proof -
  define n where "n = micro_vests x"
  define ds where "ds = dec_digits (n div 1000000)"
  define fs where "fs = frac_digits (n mod 1000000)"
  have n: "0 \<le> n" by (simp add: n_def micro_vests_nonneg)
  then have ip: "0 \<le> n div 1000000" by simp
  have ds: "list_all is_digit ds" "ds \<noteq> []" "int_of_digits ds = n div 1000000"
    using dec_digits_correct [OF ip] by (simp_all add: ds_def)
  have fs: "list_all is_digit fs" "length fs = 6" "int_of_digits fs = n mod 1000000"
    using frac_digits_correct [of "n mod 1000000"] by (simp_all add: fs_def)
  have sp: "\<forall>c \<in> set (ds @ ''.'' @ fs). c \<noteq> CHR '' ''"
    "\<forall>c \<in> set (''-'' @ ds @ ''.'' @ fs). c \<noteq> CHR '' ''"
    using ds(1) fs(1) by (auto simp: list_all_iff dest: is_digit_not_space)
  have val: "(of_int (n div 1000000) :: rat) + of_int (n mod 1000000) / 10 ^ 6 = of_int n / 1000000"
  proof -
    have e: "n div 1000000 * 1000000 + n mod 1000000 = n" by simp
    have "(of_int (n div 1000000) :: rat) * 1000000 + of_int (n mod 1000000) =
            of_int (n div 1000000 * 1000000 + n mod 1000000)"
      by (simp only: of_int_add of_int_mult of_int_numeral)
    also have "\<dots> = of_int n" by (simp only: e)
    finally show ?thesis by (simp add: field_simps)
  qed
  show ?thesis
  proof (cases "x < 0")
    case True
    have "render_vests x = (''-'' @ ds @ ''.'' @ fs) @ '' VESTS''"
      using True assms by (simp add: render_vests_def overflow_iff n_def ds_def fs_def)
    then have "amount (render_vests x) = Decimal (''-'' @ ds @ ''.'' @ fs)"
      using amount_suffix [OF sp(2)] by simp
    also have "\<dots> = Inr (- (of_int n / 1000000))"
      using Decimal_fixed_point(2) [OF ds(1,2) fs(1)] val by (simp add: ds(3) fs(2,3))
    finally show ?thesis using True by (simp add: rendered_value_def n_def)
  next
    case False
    have "render_vests x = (ds @ ''.'' @ fs) @ '' VESTS''"
      using False assms by (simp add: render_vests_def overflow_iff n_def ds_def fs_def)
    then have "amount (render_vests x) = Decimal (ds @ ''.'' @ fs)"
      using amount_suffix [OF sp(1)] by simp
    also have "\<dots> = Inr (of_int n / 1000000)"
      using Decimal_fixed_point(1) [OF ds(1,2) fs(1)] val by (simp add: ds(3) fs(2,3))
    finally show ?thesis using False by (simp add: rendered_value_def n_def)
  qed
qed




lemma float_of_error:
  assumes "0 < q"
  shows "\<bar>float_of q - q\<bar> \<le> 2 powi (max (float_exponent q) (- 1022) - 53)"
proof -
  define e where "e = max (float_exponent q) (- 1022)"
  define u :: rat where "u = 2 powi (e - 52)"
  have u: "0 < u" by (simp add: u_def)
  have "float_of q - q = (of_int (round_half_even (q / u)) - q / u) * u"
    using assms u by (simp add: float_of_def Let_def e_def u_def field_simps)
  then have "\<bar>float_of q - q\<bar> = \<bar>of_int (round_half_even (q / u)) - q / u\<bar> * u"
    using u by (simp add: abs_mult)
  also have "\<dots> \<le> 1 / 2 * u"
    using round_half_even_error [of "q / u"] u by (simp only: mult_le_cancel_right_pos)
  also have "\<dots> = 2 powi (e - 53)"
    using power_int_diff [of "2::rat" "e - 52" 1] by (simp add: u_def)
  finally show ?thesis by (simp add: e_def)
qed

lemma round_half_even_0 [simp]: "round_half_even 0 = 0"
  by (simp add: round_half_even_def)

lemma rendered_value_0 [simp]: "rendered_value 0 = 0"
  by (simp add: rendered_value_def micro_vests_def float_of_def)

lemma rendered_close:
  assumes "\<bar>x\<bar> < 2 ^ 33"
  shows "float_of \<bar>x\<bar> < 2 powi 1024" and "\<bar>rendered_value x - x\<bar> < 1 / 1000000"
proof -
  define q where "q = \<bar>x\<bar>"
  have q0: "0 \<le> q" by (simp add: q_def)
  have fin: "float_of q < 2 powi 1024" and err: "\<bar>of_int (micro_vests x) / 1000000 - q\<bar> < 1 / 1000000"
  proof -
    show "float_of q < 2 powi 1024"
    proof (cases "q = 0")
      case True
      then show ?thesis by (simp add: float_of_def)
    next
      case False
      then have q: "0 < q" using q0 by simp
      define e where "e = max (float_exponent q) (- 1022)"
      have "2 powi float_exponent q \<le> q" using float_exponent_bounds [OF q] by simp
      then have "(2::rat) powi float_exponent q < 2 powi 33" using assms by (simp add: q_def)
      then have "float_exponent q < 33"
        using power_int_increasing [of 33 "float_exponent q" "2::rat"] by (cases "float_exponent q < 33") auto
      then have e: "e \<le> 32" by (simp add: e_def)
      have "float_of q \<le> 2 powi (e + 1)" using float_of_upper [OF q] by (simp add: e_def)
      also have "\<dots> \<le> 2 powi 33" using e by (intro power_int_increasing) auto
      also have "\<dots> < 2 powi 1024" by (intro power_int_strict_increasing) auto
      finally show ?thesis .
    qed
    show "\<bar>of_int (micro_vests x) / 1000000 - q\<bar> < 1 / 1000000"
    proof (cases "q = 0")
      case True
      then show ?thesis by (simp add: micro_vests_def q_def [symmetric] float_of_def)
    next
      case False
      then have q: "0 < q" using q0 by simp
      define e where "e = max (float_exponent q) (- 1022)"
      have "2 powi float_exponent q \<le> q" using float_exponent_bounds [OF q] by simp
      then have "(2::rat) powi float_exponent q < 2 powi 33" using assms by (simp add: q_def)
      then have "float_exponent q < 33"
        using power_int_increasing [of 33 "float_exponent q" "2::rat"] by (cases "float_exponent q < 33") auto
      then have e: "e - 53 \<le> - 21" by (simp add: e_def)
      have "\<bar>float_of q - q\<bar> \<le> 2 powi (e - 53)" using float_of_error [OF q] by (simp add: e_def)
      also have "\<dots> \<le> 2 powi (- 21)" using e by (intro power_int_increasing) auto
      finally have a: "\<bar>float_of q - q\<bar> \<le> 1 / 2097152" by (simp add: power_int_minus_divide)
      have "\<bar>of_int (micro_vests x) - float_of q * 1000000\<bar> \<le> 1 / 2"
        using round_half_even_error [of "float_of q * 1000000"] by (simp add: micro_vests_def q_def)
      then have b: "\<bar>of_int (micro_vests x) / 1000000 - float_of q\<bar> \<le> 1 / 2000000"
        by (simp add: abs_le_iff field_simps)
      show ?thesis using a b by linarith
    qed
  qed
  show "float_of \<bar>x\<bar> < 2 powi 1024" using fin by (simp add: q_def)
  show "\<bar>rendered_value x - x\<bar> < 1 / 1000000"
  proof (cases "x < 0")
    case True
    then have "rendered_value x - x = - (of_int (micro_vests x) / 1000000 - q)"
      by (simp add: rendered_value_def q_def)
    then show ?thesis using err by (simp only: abs_minus_cancel)
  next
    case False
    then have "rendered_value x - x = of_int (micro_vests x) / 1000000 - q"
      by (simp add: rendered_value_def q_def)
    then show ?thesis using err by simp
  qed
qed

subsection \<open>The sizing policy, step by step\<close>


lemma candidate_vests_update [simp]:
  "candidate_vests self today (acct\<lparr>vesting_shares_from_delegator := s\<rparr>) av =
   candidate_vests self today acct av"
  by (simp add: candidate_vests_def inactive_days_def)

lemma skip_increase_update [simp]:
  "skip_increase (acct\<lparr>vesting_shares_from_delegator := s\<rparr>) av = skip_increase acct av"
  by (simp add: skip_increase_def cong: if_cong)

lemma vests_to_delegate_Inr_iff:
  "vests_to_delegate self today acct = Inr r \<longleftrightarrow>
     (\<exists>av old new0 skip.
        amount (account.vesting_shares acct) = Inr av \<and>
        amount (vesting_shares_from_delegator acct) = Inr old \<and>
        candidate_vests self today acct av = Inr new0 \<and>
        skip_increase acct av = Inr skip \<and>
        r = settle self acct old new0 skip)"
  unfolding vests_to_delegate_def and_then_Inr_iff by auto


lemma settle_delta:
  "settle self acct old new0 skip = Some d \<Longrightarrow> MIN_VESTS_DELTA self \<le> \<bar>delta_vests d\<bar>"
  by (auto simp: settle_def Let_def split: if_splits)

lemma settle_target:
  assumes "settle self acct old new0 skip = Some d"
  shows "new_vests d = render_vests (old + delta_vests d)"
    and "old + delta_vests d =
           (if 0 < new0 \<and> new0 < MIN_VESTS self then MIN_VESTS self
            else if new0 = 0 \<and> old < MIN_VESTS_DELTA self
            then max (MIN_VESTS self) (old + MIN_VESTS_DELTA self)
            else new0)"
  using assms by (auto simp: settle_def Let_def split: if_splits)


lemma settle_zero_candidate:
  "0 \<le> old \<Longrightarrow>
   settle self acct old 0 skip =
     Some \<lparr> name = account.name acct, shares = account.vesting_shares acct,
            delta_vests = (if old < MIN_VESTS_DELTA self
                           then max (MIN_VESTS self) (old + MIN_VESTS_DELTA self) else 0) - old,
            new_vests = render_vests
                          (if old < MIN_VESTS_DELTA self
                           then max (MIN_VESTS self) (old + MIN_VESTS_DELTA self) else 0),
            old_vests = vesting_shares_from_delegator acct \<rparr>"
  by (auto simp: settle_def Let_def max_def)


lemma settle_again:
  assumes "c \<noteq> 0" "settle self acct old c skip = Some d"
    and "\<bar>old + delta_vests d - v\<bar> < MIN_VESTS_DELTA self"
  shows "settle self acct' v c skip' = None"
proof -
  have t: "old + delta_vests d = (if 0 < c \<and> c < MIN_VESTS self then MIN_VESTS self else c)"
    using settle_target(2) [OF assms(2)] assms(1) by simp
  show ?thesis
    using assms(1,3) unfolding t by (auto simp: settle_def Let_def)
qed

lemma settle_excluded:
  "settle self acct old 0 skip = Some d \<Longrightarrow> 0 < old \<Longrightarrow> MIN_VESTS_DELTA self \<le> old \<Longrightarrow>
   delta_vests d < 0 \<and> old + delta_vests d = 0 \<and> new_vests d = render_vests 0"
  by (auto simp: settle_def Let_def split: if_splits)

lemma py_max_mem: "py_max a [b, c, d] \<in> {a, b, c, d}"
  by (simp add: py_max_def)

lemma inactive_days_total:
  assumes "strptime (last_bandwidth_update acct) = Inr t1" "strptime (created acct) = Inr t2"
    "strptime (last_post acct) = Inr t3" "strptime (last_vote_time acct) = Inr t4"
  shows "\<exists>n. inactive_days today acct = Inr n"
proof -
  have "\<exists>t. strptime (py_max (last_bandwidth_update acct)
                        [created acct, last_post acct, last_vote_time acct]) = Inr t"
    using py_max_mem [of "last_bandwidth_update acct" "created acct" "last_post acct"
                         "last_vote_time acct"] assms
    by auto
  then show ?thesis by (auto simp: inactive_days_def days_since_def)
qed

lemma render_vests_0: "render_vests 0 = ''0.000000 VESTS''"
  by code_simp

subsection \<open>The policy on the sample accounts\<close>

lemma demo_params:
  "TARGET_VESTS demo = 1000" "MIN_VESTS_DELTA demo = 1" "MIN_VESTS demo = 10"
  "deplorables demo = {''spammer''}"
  by (simp_all add: demo_def)

lemma alice_decision:
  "vests_to_delegate demo jan20 alice =
     Inr (Some \<lparr> name = ''alice'', shares = ''200.000000 VESTS'', delta_vests = 800,
                 new_vests = ''800.000000 VESTS'', old_vests = ''0.000000 VESTS'' \<rparr>)"
  by code_simp

lemma carol_amounts:
  "amount (account.vesting_shares carol) = Inr 50"
  "amount (vesting_shares_from_delegator carol) = Inr 0"
  "amount (vesting_withdraw_rate carol) = Inr 0"
  "py_int (withdrawn carol) = Inr 7"
  "py_int (to_withdraw carol) = Inr 0"
  by code_simp+

lemma carol_dates:
  "strptime (last_bandwidth_update carol) = Inr 63639763203000000"
  "strptime (created carol) = Inr 63594522021000000"
  "strptime (last_post carol) = Inr 63634852800000000"
  "strptime (last_vote_time carol) = Inr 63639943200000000"
  by code_simp+

lemma dave_own: "amount (account.vesting_shares dave) = Inr 2000"
  by code_simp

lemma dave_delegated: "amount (vesting_shares_from_delegator dave) = Inr 150"
  by code_simp

lemma dave_skip: "skip_increase dave 2000 = Inr False"
  by code_simp

lemma dave_active: "inactive_days jan20 dave = Inr 9"
  by code_simp

lemma dave_decision:
  "vests_to_delegate demo jan20 dave =
     Inr (Some \<lparr> name = ''dave'', shares = ''2000.000000 VESTS'', delta_vests = - 150,
                 new_vests = ''0.000000 VESTS'', old_vests = ''150.000000 VESTS'' \<rparr>)"
  by code_simp

lemma erin_decision:
  "vests_to_delegate demo jan20 erin =
     Inr (Some \<lparr> name = ''erin'', shares = ''2000.000000 VESTS'', delta_vests = 19 / 2,
                 new_vests = ''10.000000 VESTS'', old_vests = ''0.500000 VESTS'' \<rparr>)"
  by code_simp

lemma erin_again:
  "vests_to_delegate demo jan20 (erin\<lparr>vesting_shares_from_delegator := ''10.000000 VESTS''\<rparr>) =
     Inr (Some \<lparr> name = ''erin'', shares = ''2000.000000 VESTS'', delta_vests = - 10,
                 new_vests = ''0.000000 VESTS'', old_vests = ''10.000000 VESTS'' \<rparr>)"
  by code_simp

lemma frank_facts:
  "amount (account.vesting_shares frank) = Inr 2000"
  "amount (vesting_shares_from_delegator frank) = Inr (1 / 2)"
  "skip_increase frank 2000 = Inr True"
  "candidate_vests demo jan20 frank 2000 = Inr 0"
  by code_simp+

lemma frank_decision:
  "vests_to_delegate demo jan20 frank =
     Inr (Some \<lparr> name = ''frank'', shares = ''2000.000000 VESTS'', delta_vests = 19 / 2,
                 new_vests = ''10.000000 VESTS'', old_vests = ''0.500000 VESTS'' \<rparr>)"
  by code_simp

lemma gail_facts:
  "amount (account.vesting_shares gail) = Inr 200"
  "amount (vesting_shares_from_delegator gail) = Inr 0"
  "candidate_vests demo jan20 gail 200 = Inr (400 / 3)"
  by code_simp+

lemma gail_decision:
  "vests_to_delegate demo jan20 gail =
     Inr (Some \<lparr> name = ''gail'', shares = ''200.000000 VESTS'', delta_vests = 400 / 3,
                 new_vests = ''133.333333 VESTS'', old_vests = ''0.000000 VESTS'' \<rparr>)"
  by code_simp

lemma amount_gail_text: "amount ''133.333333 VESTS'' = Inr (133333333 / 1000000)"
  by code_simp

lemma spammer_delegated: "amount (vesting_shares_from_delegator spammer) = Inr 150"
  by code_simp

lemma spammer_decision:
  "vests_to_delegate demo jan20 spammer =
     Inr (Some \<lparr> name = ''spammer'', shares = ''120.000000 VESTS'', delta_vests = - 150,
                 new_vests = ''0.000000 VESTS'', old_vests = ''150.000000 VESTS'' \<rparr>)"
  by code_simp

text \<open>The two sample chains: what the constructor computes, and the policy on them.\<close>

lemma chain_amounts:
  "amount ''51.200 STEEM'' = Inr (256 / 5)" "amount ''1000.000000 VESTS'' = Inr 1000"
  "amount ''0.001 STEEM'' = Inr (1 / 1000)" "amount ''16384.000 STEEM'' = Inr 16384"
  "amount ''1.000000 VESTS'' = Inr 1"
  by code_simp+


lemma tiny_init: "init tiny_chain 100 None {} = Inr tiny"
  by (simp add: init_def tiny_chain_def tiny_def chain_amounts decimal_div_def TARGET_SP_def)





lemma ivan_candidate: "candidate_vests tiny jan20 ivan 0 = Inr (15 / 16384)"
  by code_simp

lemma ivan_decision:
  "vests_to_delegate tiny jan20 ivan =
     Inr (Some \<lparr> name = ''ivan'', shares = ''0.000000 VESTS'', delta_vests = - (3721 / 409600),
                 new_vests = ''0.000916 VESTS'', old_vests = ''0.010000 VESTS'' \<rparr>)"
  by code_simp

lemma ivan_again:
  "vests_to_delegate tiny jan20 (ivan\<lparr>vesting_shares_from_delegator := ''0.000916 VESTS''\<rparr>) =
     Inr (Some \<lparr> name = ''ivan'', shares = ''0.000000 VESTS'',
                 delta_vests = - (121 / 256000000),
                 new_vests = ''0.000916 VESTS'', old_vests = ''0.000916 VESTS'' \<rparr>)"
  by code_simp

subsection \<open>Claims about the sizing policy\<close>

text \<open>
  Claim C1 says that an account whose own stake has reached the target, and that is not
  inactive, gets "no action" whatever is delegated to it. The source sets the target of
  such an account to 0 and then acts on it. What holds: for an account whose own stake
  is at least \<open>TARGET_VESTS\<close>, active or not, and whose delegated amount is not
  negative, a decision is always emitted; it sets the delegation to 0 (the delta is
  minus the delegated amount) when the delegated amount is at least
  \<open>MIN_VESTS_DELTA\<close>, and raises it to
  \<open>max MIN_VESTS (delegated + MIN_VESTS_DELTA)\<close> when it is below. The decision
  carries that target as six-decimal text.
\<close>

theorem self_sufficient_is_acted_on:
  assumes "amount (account.vesting_shares acct) = Inr av"
    and "TARGET_VESTS self \<le> av"
    and "amount (vesting_shares_from_delegator acct) = Inr old"
    and "0 \<le> old"
    and "skip_increase acct av = Inr skip"
  shows "\<exists>d. vests_to_delegate self today acct = Inr (Some d)
           \<and> new_vests d = render_vests
                              (if old < MIN_VESTS_DELTA self
                               then max (MIN_VESTS self) (old + MIN_VESTS_DELTA self) else 0)
           \<and> delta_vests d = (if old < MIN_VESTS_DELTA self
                              then max (MIN_VESTS self) (old + MIN_VESTS_DELTA self) else 0) - old"
proof -
  have "candidate_vests self today acct av = Inr 0"
    using assms(2) by (simp add: candidate_vests_def)
  then have "vests_to_delegate self today acct = Inr (settle self acct old 0 skip)"
    using assms by (simp add: vests_to_delegate_def)
  then show ?thesis
    using settle_zero_candidate [OF assms(4), of self acct skip] by simp
qed

text \<open>The sample account \<open>dave\<close>: own stake 2000, 150 delegated; the delegation is withdrawn.\<close>

theorem self_sufficient_is_acted_on_witness:
  "amount (account.vesting_shares dave) = Inr 2000 \<and> TARGET_VESTS demo \<le> 2000
   \<and> amount (vesting_shares_from_delegator dave) = Inr 150 \<and> (0 :: rat) \<le> 150
   \<and> skip_increase dave 2000 = Inr False
   \<and> (\<exists>d. vests_to_delegate demo jan20 dave = Inr (Some d)
          \<and> new_vests d = ''0.000000 VESTS'' \<and> delta_vests d = - 150)"
proof -
  have t: "TARGET_VESTS demo \<le> 2000" by (simp add: demo_params)
  have z: "(0 :: rat) \<le> 150" by simp
  show ?thesis
    using self_sufficient_is_acted_on [OF dave_own t dave_delegated z dave_skip, of jan20]
      dave_own dave_delegated dave_skip t
    by (auto simp: demo_params render_vests_0)
qed

text \<open>
  Claim C1 as stated fails on \<open>dave\<close>: the own stake is above the target, the account
  was active 9 days ago, and the result is a decision, not "no action".
\<close>

theorem self_sufficient_no_action_counterexample:
  "amount (account.vesting_shares dave) = Inr 2000 \<and> TARGET_VESTS demo \<le> 2000
   \<and> inactive_days jan20 dave = Inr 9
   \<and> vests_to_delegate demo jan20 dave \<noteq> Inr None"
  by (simp add: dave_own dave_active dave_decision demo_params)

text \<open>
  Claim C2: whenever \<open>vests_to_delegate\<close> emits a decision, the absolute value of its
  \<open>delta_vests\<close> is at least \<open>MIN_VESTS_DELTA\<close>; a smaller change is "no action".
\<close>

theorem minimum_change_filter:
  "vests_to_delegate self today acct = Inr (Some d) \<Longrightarrow>
   MIN_VESTS_DELTA self \<le> \<bar>delta_vests d\<bar>"
  unfolding vests_to_delegate_Inr_iff using settle_delta by metis

theorem minimum_change_filter_witness:
  "vests_to_delegate demo jan20 alice =
     Inr (Some \<lparr> name = ''alice'', shares = ''200.000000 VESTS'', delta_vests = 800,
                 new_vests = ''800.000000 VESTS'', old_vests = ''0.000000 VESTS'' \<rparr>)
   \<and> MIN_VESTS_DELTA demo \<le> \<bar>800 :: rat\<bar>"
  using minimum_change_filter [OF alice_decision] alice_decision by simp

text \<open>
  Claim C4 says that a second run, on the record whose delegated amount has been
  replaced by the first decision's new target, is always "no action". Two things stand
  against it. The rescue rule is a detour in two steps by design: it raises a
  delegation that is below the minimum change so that the next run can set it to 0,
  and that next run emits a decision. And what a decision carries, and the chain
  stores, is the target as six-decimal text, which can differ from the target by as
  much as the minimum change. What holds: when the candidate target of the account
  (lines 87-95) is not 0, the second run on the record that holds the emitted text is
  "no action" whenever that text denotes a value less than \<open>MIN_VESTS_DELTA\<close> away
  from the new target (the delegated amount plus \<open>delta_vests\<close>); this is so whenever
  \<open>MIN_VESTS_DELTA\<close> is at least 0.000001 and the new target is below \<open>2 ^ 33\<close>
  in absolute value.
\<close>

theorem second_run_no_action:
  assumes "amount (account.vesting_shares acct) = Inr av"
    and "amount (vesting_shares_from_delegator acct) = Inr old"
    and "candidate_vests self today acct av = Inr c"
    and "c \<noteq> 0"
    and "vests_to_delegate self today acct = Inr (Some d)"
  shows "(amount (new_vests d) = Inr v \<and> \<bar>old + delta_vests d - v\<bar> < MIN_VESTS_DELTA self \<longrightarrow>
            vests_to_delegate self today (acct\<lparr>vesting_shares_from_delegator := new_vests d\<rparr>)
              = Inr None)
       \<and> (1 / 1000000 \<le> MIN_VESTS_DELTA self \<and> \<bar>old + delta_vests d\<bar> < 2 ^ 33 \<longrightarrow>
            vests_to_delegate self today (acct\<lparr>vesting_shares_from_delegator := new_vests d\<rparr>)
              = Inr None)"
proof -
  from assms(5) obtain skip where
    sk: "skip_increase acct av = Inr skip" and st: "settle self acct old c skip = Some d"
    unfolding vests_to_delegate_Inr_iff using assms(1,2,3) by auto
  define acct' where "acct' = acct\<lparr>vesting_shares_from_delegator := new_vests d\<rparr>"
  have run: "vests_to_delegate self today acct' = Inr None"
    if "amount (new_vests d) = Inr w" "\<bar>old + delta_vests d - w\<bar> < MIN_VESTS_DELTA self" for w
  proof -
    have "settle self acct' w c skip = None"
      using settle_again [OF assms(4) st that(2)] .
    then show ?thesis
      using assms(1,3) sk that(1) by (simp add: vests_to_delegate_def acct'_def)
  qed
  have "vests_to_delegate self today acct' = Inr None"
    if "1 / 1000000 \<le> MIN_VESTS_DELTA self" "\<bar>old + delta_vests d\<bar> < 2 ^ 33"
  proof -
    define t where "t = old + delta_vests d"
    have "amount (render_vests t) = Inr (rendered_value t)"
      using amount_render_vests rendered_close(1) that(2) by (simp add: t_def)
    moreover have "\<bar>t - rendered_value t\<bar> < MIN_VESTS_DELTA self"
      using rendered_close(2) [of t] that by (simp add: t_def abs_minus_commute)
    ultimately show ?thesis
      using run [of "rendered_value t"] settle_target(1) [OF st] by (simp add: t_def)
  qed
  with run show ?thesis unfolding acct'_def by blast
qed

text \<open>
  The sample account \<open>gail\<close>: the first run delegates a third of 400, emitted as
  133.333333, and the second run does nothing.
\<close>

theorem second_run_no_action_witness:
  "amount (account.vesting_shares gail) = Inr 200
   \<and> amount (vesting_shares_from_delegator gail) = Inr 0
   \<and> candidate_vests demo jan20 gail 200 = Inr (400 / 3) \<and> (400 / 3 :: rat) \<noteq> 0
   \<and> vests_to_delegate demo jan20 gail =
       Inr (Some \<lparr> name = ''gail'', shares = ''200.000000 VESTS'', delta_vests = 400 / 3,
                   new_vests = ''133.333333 VESTS'', old_vests = ''0.000000 VESTS'' \<rparr>)
   \<and> amount ''133.333333 VESTS'' = Inr (133333333 / 1000000)
   \<and> \<bar>0 + 400 / 3 - 133333333 / 1000000\<bar> < MIN_VESTS_DELTA demo
   \<and> 1 / 1000000 \<le> MIN_VESTS_DELTA demo \<and> \<bar>0 + 400 / 3 :: rat\<bar> < 2 ^ 33
   \<and> vests_to_delegate demo jan20
        (gail\<lparr>vesting_shares_from_delegator := ''133.333333 VESTS''\<rparr>) = Inr None"
proof -
  have n: "(400 / 3 :: rat) \<noteq> 0" by simp
  have c: "\<bar>0 + 400 / 3 - 133333333 / 1000000\<bar> < MIN_VESTS_DELTA demo"
    "1 / 1000000 \<le> MIN_VESTS_DELTA demo" "\<bar>0 + 400 / 3 :: rat\<bar> < 2 ^ 33"
    by (simp_all add: demo_params)
  show ?thesis
    using second_run_no_action [OF gail_facts(1) gail_facts(2) gail_facts(3) n gail_decision,
            of "133333333 / 1000000"]
      gail_facts gail_decision amount_gail_text c
    by simp
qed

text \<open>
  Claim C4 as stated fails on the sample account \<open>erin\<close> (own stake above the target,
  0.5 delegated): the first run raises the delegation to 10, and the run on the record
  with 10 delegated emits the decision that sets it to 0.
\<close>

theorem second_run_counterexample:
  "vests_to_delegate demo jan20 erin =
     Inr (Some \<lparr> name = ''erin'', shares = ''2000.000000 VESTS'', delta_vests = 19 / 2,
                 new_vests = ''10.000000 VESTS'', old_vests = ''0.500000 VESTS'' \<rparr>)
   \<and> vests_to_delegate demo jan20 (erin\<lparr>vesting_shares_from_delegator := ''10.000000 VESTS''\<rparr>)
       \<noteq> Inr None"
  by (simp add: erin_decision erin_again)

text \<open>
  The condition on the emitted text is needed. On the chain where a vesting share is
  worth 16384 the minimum change is smaller than a unit of the text: the target
  0.00091552734375 of \<open>ivan\<close> is emitted as 0.000916, and every further run on the
  emitted text emits the same text again.
\<close>

lemma second_run_below_text_unit:
  "init tiny_chain 100 None {} = Inr tiny
   \<and> 0 < MIN_VESTS_DELTA tiny
   \<and> candidate_vests tiny jan20 ivan 0 = Inr (15 / 16384)
   \<and> vests_to_delegate tiny jan20 ivan =
       Inr (Some \<lparr> name = ''ivan'', shares = ''0.000000 VESTS'',
                   delta_vests = - (3721 / 409600), new_vests = ''0.000916 VESTS'',
                   old_vests = ''0.010000 VESTS'' \<rparr>)
   \<and> vests_to_delegate tiny jan20 (ivan\<lparr>vesting_shares_from_delegator := ''0.000916 VESTS''\<rparr>)
       \<noteq> Inr None"
  by (simp add: tiny_init ivan_decision ivan_again ivan_candidate) (simp add: tiny_def)

text \<open>
  Claim C5: for an account whose name is in the exclusion set the candidate target is 0;
  when an existing delegation is at or above \<open>MIN_VESTS_DELTA\<close> (the rescue rule does
  not apply), any decision emitted has a negative \<open>delta_vests\<close> and the new target 0:
  the delegation is never increased.
\<close>

theorem excluded_never_increased:
  assumes "account.name acct \<in> deplorables self"
    and "amount (vesting_shares_from_delegator acct) = Inr old"
    and "0 < old"
    and "MIN_VESTS_DELTA self \<le> old"
  shows "candidate_vests self today acct av = Inr 0 \<and>
         (vests_to_delegate self today acct = Inr (Some d) \<longrightarrow>
            delta_vests d < 0 \<and> old + delta_vests d = 0 \<and> new_vests d = ''0.000000 VESTS'')"
proof -
  have c0: "\<And>v. candidate_vests self today acct v = Inr 0"
    using assms(1) by (simp add: candidate_vests_def)
  have "delta_vests d < 0 \<and> old + delta_vests d = 0 \<and> new_vests d = ''0.000000 VESTS''"
    if "vests_to_delegate self today acct = Inr (Some d)"
  proof -
    from that obtain skip where "settle self acct old 0 skip = Some d"
      unfolding vests_to_delegate_Inr_iff using assms(2) c0 by auto
    then show ?thesis using settle_excluded assms(3,4) render_vests_0 by metis
  qed
  with c0 show ?thesis by simp
qed

theorem excluded_never_increased_witness:
  "account.name spammer \<in> deplorables demo
   \<and> amount (vesting_shares_from_delegator spammer) = Inr 150
   \<and> (0 :: rat) < 150 \<and> MIN_VESTS_DELTA demo \<le> 150
   \<and> candidate_vests demo jan20 spammer 120 = Inr 0
   \<and> vests_to_delegate demo jan20 spammer =
       Inr (Some \<lparr> name = ''spammer'', shares = ''120.000000 VESTS'', delta_vests = - 150,
                   new_vests = ''0.000000 VESTS'', old_vests = ''150.000000 VESTS'' \<rparr>)
   \<and> (- 150 :: rat) < 0"
proof -
  have m: "account.name spammer \<in> deplorables demo"
    by (simp add: spammer_def with_delegation_def chain_account_def demo_params)
  have z: "(0 :: rat) < 150" by simp
  have b: "MIN_VESTS_DELTA demo \<le> 150" by (simp add: demo_params)
  show ?thesis
    using excluded_never_increased [OF m spammer_delegated z b, of jan20 120]
      m spammer_delegated b spammer_decision
    by simp
qed




text \<open>
  Claim C7: the increase guard does not cover an increase that the rescue rule
  introduces. There is an account for which the guard's condition \<open>skip_increase\<close>
  holds, whose candidate target is 0 and whose delegated amount lies strictly between
  0 and \<open>MIN_VESTS_DELTA\<close>, and for which a decision with a positive \<open>delta_vests\<close>
  is emitted: the guard compares the candidate target of lines 87-95, before the
  rescue rule raises it.
\<close>

theorem rescue_escapes_increase_guard:
  "\<exists>self today acct av old d.
     amount (account.vesting_shares acct) = Inr av
     \<and> amount (vesting_shares_from_delegator acct) = Inr old
     \<and> skip_increase acct av = Inr True
     \<and> candidate_vests self today acct av = Inr 0
     \<and> 0 < old \<and> old < MIN_VESTS_DELTA self
     \<and> vests_to_delegate self today acct = Inr (Some d)
     \<and> 0 < delta_vests d"
proof -
  have "amount (account.vesting_shares frank) = Inr 2000
     \<and> amount (vesting_shares_from_delegator frank) = Inr (1 / 2)
     \<and> skip_increase frank 2000 = Inr True
     \<and> candidate_vests demo jan20 frank 2000 = Inr 0
     \<and> (0 :: rat) < 1 / 2 \<and> 1 / 2 < MIN_VESTS_DELTA demo
     \<and> vests_to_delegate demo jan20 frank =
         Inr (Some \<lparr> name = ''frank'', shares = ''2000.000000 VESTS'',
                     delta_vests = 19 / 2, new_vests = ''10.000000 VESTS'',
                     old_vests = ''0.500000 VESTS'' \<rparr>)
     \<and> 0 < delta_vests \<lparr> name = ''frank'', shares = ''2000.000000 VESTS'',
                          delta_vests = 19 / 2, new_vests = ''10.000000 VESTS'',
                          old_vests = ''0.500000 VESTS'' \<rparr>"
    by (simp add: frank_facts frank_decision demo_params)
  then show ?thesis by blast
qed

text \<open>
  Claim C10: \<open>vests_to_delegate\<close> is total on well-formed input. When the three
  amounts of the record parse, its four dates parse and its two withdrawal counters are
  integers, the function returns a value (a decision or "no action") and raises nothing.
\<close>

theorem vests_to_delegate_total:
  assumes "amount (account.vesting_shares acct) = Inr av"
    and "amount (vesting_shares_from_delegator acct) = Inr old"
    and "amount (vesting_withdraw_rate acct) = Inr rate"
    and "py_int (withdrawn acct) = Inr w"
    and "py_int (to_withdraw acct) = Inr tw"
    and "strptime (last_bandwidth_update acct) = Inr t1"
    and "strptime (created acct) = Inr t2"
    and "strptime (last_post acct) = Inr t3"
    and "strptime (last_vote_time acct) = Inr t4"
  shows "\<exists>r. vests_to_delegate self today acct = Inr r"
proof -
  obtain n where n: "inactive_days today acct = Inr n"
    using inactive_days_total [OF assms(6-9)] by blast
  have "\<exists>c. candidate_vests self today acct av = Inr c"
    by (simp add: candidate_vests_def n)
  moreover have "\<exists>b. skip_increase acct av = Inr b"
    by (auto simp: skip_increase_def assms(3,4,5))
  ultimately show ?thesis
    using assms(1,2) unfolding vests_to_delegate_Inr_iff by blast
qed

text \<open>The sample account \<open>carol\<close>: every field parses, and the result is "no action".\<close>

theorem vests_to_delegate_total_witness:
  "amount (account.vesting_shares carol) = Inr 50
   \<and> amount (vesting_shares_from_delegator carol) = Inr 0
   \<and> amount (vesting_withdraw_rate carol) = Inr 0
   \<and> py_int (withdrawn carol) = Inr 7 \<and> py_int (to_withdraw carol) = Inr 0
   \<and> strptime (last_bandwidth_update carol) = Inr 63639763203000000
   \<and> strptime (created carol) = Inr 63594522021000000
   \<and> strptime (last_post carol) = Inr 63634852800000000
   \<and> strptime (last_vote_time carol) = Inr 63639943200000000
   \<and> (\<exists>r. vests_to_delegate demo jan20 carol = Inr r)"
  using vests_to_delegate_total [OF carol_amounts carol_dates, of demo jan20]
    carol_amounts carol_dates
  by simp

subsection \<open>The pager\<close>

lemma attach_names:
  "attach d accounts = Inr accounts' \<Longrightarrow> a \<in> set accounts' \<Longrightarrow> d (account.name a) \<noteq> None"
proof (induction accounts arbitrary: accounts')
  case Nil
  then show ?case by simp
next
  case (Cons x xs)
  then show ?case
    by (auto simp: and_then_Inr_iff with_delegation_def split: option.splits)
qed

lemma delegations_get_dom:
  "delegations_get results nm \<noteq> None \<Longrightarrow> nm \<in> delegatee ` set results"
  by (auto simp: delegations_get_def dest!: map_of_SomeD)

lemma page_of_results_names:
  "page_of_results self results = Inr (accounts, cur) \<Longrightarrow>
   account.name ` set accounts \<subseteq> delegatee ` set results"
  by (auto simp: page_of_results_def and_then_Inr_iff split: if_splits
           dest!: attach_names delegations_get_dom)

lemma testnet_pages:
  "get_vesting_delegations (client redeemer) ''redeemer'' (Some ''dave'') (limit redeemer) =
     Inr [\<lparr> delegatee = ''dave'', vesting_shares = ''150.000000 VESTS'' \<rparr>,
          \<lparr> delegatee = ''bob'', vesting_shares = ''150.000000 VESTS'' \<rparr>]"
  "get_vesting_delegations (client redeemer) ''redeemer'' (Some ''bob'') (limit redeemer) =
     Inr [\<lparr> delegatee = ''bob'', vesting_shares = ''150.000000 VESTS'' \<rparr>]"
  "get_vesting_delegations (client redeemer) ''redeemer'' None (limit redeemer) =
     Inr [\<lparr> delegatee = ''erin'', vesting_shares = ''0.500000 VESTS'' \<rparr>,
          \<lparr> delegatee = ''dave'', vesting_shares = ''150.000000 VESTS'' \<rparr>]"
  by (simp_all add: redeemer_def testnet_def)

lemma page_after_dave:
  "get_delegated_accounts redeemer ''redeemer'' (Some ''dave'') = Inr ([bob], Some ''bob'')"
  by code_simp

lemma first_page:
  "get_delegated_accounts redeemer ''redeemer'' None = Inr ([erin, dave], Some ''dave'')"
  by code_simp

text \<open>
  Claim C8: when the cursor is not empty and the first record of a non-empty query
  result names the cursor, \<open>get_delegated_accounts\<close> leaves that record out: it
  answers as lines 72-80 do on the remaining records, and every account it returns is
  the delegatee of one of them. In every other case (an empty cursor, or a first record
  that does not name the cursor) no record is left out.
\<close>

theorem cursor_overlap_dropped:
  assumes "get_vesting_delegations (client self) account last_idx (limit self) = Inr results"
  shows "(truthy last_idx \<and> results \<noteq> [] \<and> Some (delegatee (hd results)) = last_idx \<longrightarrow>
            get_delegated_accounts self account last_idx = page_of_results self (tl results)
            \<and> (\<forall>accounts cur.
                  get_delegated_accounts self account last_idx = Inr (accounts, cur) \<longrightarrow>
                  account.name ` set accounts \<subseteq> delegatee ` set (tl results)))
       \<and> (\<not> truthy last_idx \<or> results = [] \<or> Some (delegatee (hd results)) \<noteq> last_idx \<longrightarrow>
            get_delegated_accounts self account last_idx = page_of_results self results)"
  using assms page_of_results_names [of self "tl results"]
  by (auto simp: get_delegated_accounts_def shift_result_def)

text \<open>
  On the sample client: the page after the cursor \<open>dave\<close> starts with the record of
  \<open>dave\<close>, which is left out, so that only \<open>bob\<close> is returned; the first page, with no
  cursor, keeps both of its records.
\<close>

theorem cursor_overlap_dropped_witness:
  "(truthy (Some ''dave'')
    \<and> get_delegated_accounts redeemer ''redeemer'' (Some ''dave'') = Inr ([bob], Some ''bob'')
    \<and> get_delegated_accounts redeemer ''redeemer'' (Some ''dave'') =
        page_of_results redeemer [\<lparr> delegatee = ''bob'', vesting_shares = ''150.000000 VESTS'' \<rparr>]
    \<and> account.name ` set [bob] \<subseteq> {''bob''})
   \<and> (\<not> truthy None
      \<and> get_delegated_accounts redeemer ''redeemer'' None = Inr ([erin, dave], Some ''dave'')
      \<and> get_delegated_accounts redeemer ''redeemer'' None =
          page_of_results redeemer
            [\<lparr> delegatee = ''erin'', vesting_shares = ''0.500000 VESTS'' \<rparr>,
             \<lparr> delegatee = ''dave'', vesting_shares = ''150.000000 VESTS'' \<rparr>])"
  using cursor_overlap_dropped [OF testnet_pages(1)] cursor_overlap_dropped [OF testnet_pages(3)]
    page_after_dave first_page
  by (simp add: truthy_def)

text \<open>
  Claim C9: when no record is left after the cursor overlap has been dropped,
  \<open>get_delegated_accounts\<close> returns the empty account list with the cursor \<open>None\<close>.
\<close>

theorem end_of_pagination:
  assumes "get_vesting_delegations (client self) account last_idx (limit self) = Inr results"
    and "shift_result last_idx results = []"
  shows "get_delegated_accounts self account last_idx = Inr ([], None)"
  using assms by (simp add: get_delegated_accounts_def page_of_results_def)

text \<open>On the sample client the page after the cursor \<open>bob\<close> holds the record of \<open>bob\<close> only.\<close>

theorem end_of_pagination_witness:
  "get_vesting_delegations (client redeemer) ''redeemer'' (Some ''bob'') (limit redeemer) =
     Inr [\<lparr> delegatee = ''bob'', vesting_shares = ''150.000000 VESTS'' \<rparr>]
   \<and> shift_result (Some ''bob'')
        [\<lparr> delegatee = ''bob'', vesting_shares = ''150.000000 VESTS'' \<rparr>] = []
   \<and> get_delegated_accounts redeemer ''redeemer'' (Some ''bob'') = Inr ([], None)"
proof -
  have e: "shift_result (Some ''bob'')
             [\<lparr> delegatee = ''bob'', vesting_shares = ''150.000000 VESTS'' \<rparr>] = []"
    by (simp add: shift_result_def truthy_def)
  show ?thesis
    using end_of_pagination [OF testnet_pages(2) e] testnet_pages(2) e by simp
qed

subsection \<open>The page pipeline\<close>

lemma append_wifs_events:
  "e \<in> set (fst (append_wifs tx wifs)) \<Longrightarrow> \<exists>w. e = AppendWif w"
  by (induction wifs) (auto split: option.splits prod.splits)

lemma append_wifs_quiet:
  "\<forall>w \<in> set wifs. appendWif_raises tx w = None \<Longrightarrow> snd (append_wifs tx wifs) = None"
  by (induction wifs) (auto split: option.splits prod.splits)

lemma submit_dry_run_events:
  assumes "e \<in> set (fst (submit self tx delegator expiration True wifs deltas))"
  shows "e = NewTransaction expiration \<or> (\<exists>ops. e = AppendOps ops) \<or> (\<exists>w. e = AppendWif w)
         \<or> (e = Sign \<and> wifs \<noteq> [])"
  using assms append_wifs_events [of e tx wifs]
  by (auto simp: submit_def Let_def split: prod.splits option.splits if_splits)

lemma submit_real_run_events:
  "\<exists>rest. fst (submit self tx delegator expiration False wifs deltas) =
            fst (submit self tx delegator expiration True wifs deltas) @ rest
          \<and> Sign \<notin> set rest"
  by (auto simp: submit_def Let_def split: prod.splits option.splits sum.splits)

lemma submit_dry_run_result:
  assumes "\<forall>w \<in> set wifs. appendWif_raises tx w = None"
    and "wifs \<noteq> [] \<longrightarrow> sign_raises tx = None"
  shows "snd (submit self tx delegator expiration True wifs deltas) = None"
  using assms append_wifs_quiet [OF assms(1)]
  by (auto simp: submit_def Let_def split: prod.splits option.splits)

lemma delegate_events:
  "fst (delegate self tx clock delegator last_idx expiration dry_run wifs) = [] \<or>
   (\<exists>deltas. fst (delegate self tx clock delegator last_idx expiration dry_run wifs)
      = fst (submit self tx delegator expiration dry_run wifs deltas))"
  by (auto simp: delegate_def split: sum.splits prod.splits option.splits)
     (metis fst_conv)+

lemma delegate_real_run_events:
  "\<exists>rest. fst (delegate self tx clock delegator last_idx expiration False wifs) =
            fst (delegate self tx clock delegator last_idx expiration True wifs) @ rest
          \<and> Sign \<notin> set rest"
proof (cases "get_delegated_accounts self delegator last_idx")
  case (Inl e)
  then show ?thesis by (simp add: delegate_def)
next
  case (Inr p)
  obtain accounts cur where p: "p = (accounts, cur)" by (cases p)
  show ?thesis
  proof (cases "get_delegation_deltas self clock accounts")
    case (Inl e)
    then show ?thesis using Inr p by (simp add: delegate_def)
  next
    case deltas: (Inr deltas)
    obtain rest where
      "fst (submit self tx delegator expiration False wifs deltas) =
         fst (submit self tx delegator expiration True wifs deltas) @ rest" "Sign \<notin> set rest"
      using submit_real_run_events by blast
    then show ?thesis
      using Inr p deltas
      by (auto simp: delegate_def split: prod.splits option.splits)
  qed
qed

lemma get_delegation_deltas_Nil [simp]: "get_delegation_deltas self clock [] = Inr []"
  by (simp add: get_delegation_deltas_def get_delegation_deltas_from_def)

lemma delegate_dry_run_result:
  assumes "get_delegated_accounts self delegator last_idx = Inr (accounts, cur)"
    and "get_delegation_deltas self clock accounts = Inr deltas"
    and "\<forall>w \<in> set wifs. appendWif_raises tx w = None"
    and "wifs \<noteq> [] \<longrightarrow> sign_raises tx = None"
  shows "snd (delegate self tx clock delegator last_idx expiration True wifs) = Inr (deltas, cur)"
proof -
  have "snd (submit self tx delegator expiration True wifs deltas) = None"
    using submit_dry_run_result [OF assms(3,4)] .
  then show ?thesis
    using assms(1,2) by (auto simp: delegate_def split: prod.splits option.splits)
qed

lemma bob_deltas:
  "get_delegation_deltas redeemer (\<lambda>i. jan20) [bob] =
     Inr [\<lparr> name = ''bob'', shares = ''900.000000 VESTS'', delta_vests = - 50,
            new_vests = ''100.000000 VESTS'', old_vests = ''150.000000 VESTS'' \<rparr>]"
  by code_simp

lemma dry_run_page:
  "delegate redeemer builder (\<lambda>i. jan20) ''redeemer'' (Some ''dave'') 60 True [''5Jwif''] =
     ([NewTransaction 60,
       AppendOps [DelegateVestingShares ''redeemer'' ''100.000000 VESTS'' ''bob''],
       AppendWif ''5Jwif'', Sign],
      Inr ([\<lparr> name = ''bob'', shares = ''900.000000 VESTS'', delta_vests = - 50,
              new_vests = ''100.000000 VESTS'', old_vests = ''150.000000 VESTS'' \<rparr>],
           Some ''bob''))"
  by code_simp

text \<open>
  Claim C3 says that with \<open>dry_run\<close> set, \<open>delegate\<close> invokes neither the signing step
  nor the broadcast step. In the source the signing step is guarded by the credentials
  (\<^verbatim>\<open>if wifs: tx.sign()\<close>), not by \<open>dry_run\<close>. What holds: with \<open>dry_run\<close> set,
  \<open>delegate\<close> never invokes the broadcast step, nor the logging and the pause that
  follow it, for every input; the signing step does not depend on \<open>dry_run\<close>: it is
  invoked in a dry run exactly when it is invoked in a real run on the same input, and
  only when credentials are supplied; and the decisions are computed and returned with
  the cursor whenever the page is read and sized and no call that attaches a
  credential or signs raises.
\<close>

theorem dry_run_never_broadcasts:
  assumes "dry_run"
  shows "Broadcast \<notin> set (fst (delegate self tx clock delegator last_idx expiration dry_run wifs))
       \<and> LogInfo \<notin> set (fst (delegate self tx clock delegator last_idx expiration dry_run wifs))
       \<and> Sleep p \<notin> set (fst (delegate self tx clock delegator last_idx expiration dry_run wifs))
       \<and> (Sign \<in> set (fst (delegate self tx clock delegator last_idx expiration dry_run wifs))
            \<longleftrightarrow> Sign \<in> set (fst (delegate self tx clock delegator last_idx expiration
                                       (\<not> dry_run) wifs)))
       \<and> (Sign \<in> set (fst (delegate self tx clock delegator last_idx expiration dry_run wifs))
            \<longrightarrow> wifs \<noteq> [])
       \<and> (get_delegated_accounts self delegator last_idx = Inr (accounts, cur)
            \<and> get_delegation_deltas self clock accounts = Inr deltas
            \<and> (\<forall>w \<in> set wifs. appendWif_raises tx w = None)
            \<and> (wifs \<noteq> [] \<longrightarrow> sign_raises tx = None) \<longrightarrow>
          snd (delegate self tx clock delegator last_idx expiration dry_run wifs)
            = Inr (deltas, cur))"
proof -
  have ev: "e = NewTransaction expiration \<or> (\<exists>ops. e = AppendOps ops) \<or> (\<exists>w. e = AppendWif w)
         \<or> (e = Sign \<and> wifs \<noteq> [])"
    if "e \<in> set (fst (delegate self tx clock delegator last_idx expiration True wifs))" for e
    using that delegate_events [of self tx clock delegator last_idx expiration True wifs]
      submit_dry_run_events [of e self tx delegator expiration wifs]
    by auto
  have sg: "Sign \<in> set (fst (delegate self tx clock delegator last_idx expiration True wifs))
            \<longleftrightarrow> Sign \<in> set (fst (delegate self tx clock delegator last_idx expiration False wifs))"
    using delegate_real_run_events [of self tx clock delegator last_idx expiration wifs] by auto
  have rs: "snd (delegate self tx clock delegator last_idx expiration True wifs) = Inr (deltas, cur)"
    if "get_delegated_accounts self delegator last_idx = Inr (accounts, cur)"
      "get_delegation_deltas self clock accounts = Inr deltas"
      "\<forall>w \<in> set wifs. appendWif_raises tx w = None" "wifs \<noteq> [] \<longrightarrow> sign_raises tx = None"
    using delegate_dry_run_result [OF that] .
  have d: "dry_run = True" using assms by simp
  show ?thesis unfolding d using ev sg rs by (simp only: not_True_eq_False) blast
qed

text \<open>A dry run of the page after \<open>dave\<close> on the sample client, with one credential.\<close>

theorem dry_run_never_broadcasts_witness:
  "True
   \<and> Broadcast \<notin> set (fst (delegate redeemer builder (\<lambda>i. jan20) ''redeemer'' (Some ''dave'') 60
                              True [''5Jwif'']))
   \<and> Sign \<in> set (fst (delegate redeemer builder (\<lambda>i. jan20) ''redeemer'' (Some ''dave'') 60
                          True [''5Jwif'']))
   \<and> Sign \<in> set (fst (delegate redeemer builder (\<lambda>i. jan20) ''redeemer'' (Some ''dave'') 60
                          False [''5Jwif'']))
   \<and> [''5Jwif''] \<noteq> []
   \<and> get_delegated_accounts redeemer ''redeemer'' (Some ''dave'') = Inr ([bob], Some ''bob'')
   \<and> get_delegation_deltas redeemer (\<lambda>i. jan20) [bob] =
       Inr [\<lparr> name = ''bob'', shares = ''900.000000 VESTS'', delta_vests = - 50,
              new_vests = ''100.000000 VESTS'', old_vests = ''150.000000 VESTS'' \<rparr>]
   \<and> appendWif_raises builder ''5Jwif'' = None
   \<and> sign_raises builder = None
   \<and> snd (delegate redeemer builder (\<lambda>i. jan20) ''redeemer'' (Some ''dave'') 60 True [''5Jwif''])
       = Inr ([\<lparr> name = ''bob'', shares = ''900.000000 VESTS'', delta_vests = - 50,
                new_vests = ''100.000000 VESTS'', old_vests = ''150.000000 VESTS'' \<rparr>],
              Some ''bob'')"
proof -
  have b: "\<forall>w \<in> set [''5Jwif'']. appendWif_raises builder w = None" "sign_raises builder = None"
    by (simp_all add: builder_def)
  have s: "Sign \<in> set (fst (delegate redeemer builder (\<lambda>i. jan20) ''redeemer'' (Some ''dave'') 60
                          True [''5Jwif'']))"
    by (simp add: dry_run_page)
  show ?thesis
    using dry_run_never_broadcasts [of True redeemer builder "\<lambda>i. jan20" "''redeemer''"
            "Some ''dave''" 60 "[''5Jwif'']" _ "[bob]" "Some ''bob''"
            "[\<lparr> name = ''bob'', shares = ''900.000000 VESTS'', delta_vests = - 50,
                new_vests = ''100.000000 VESTS'', old_vests = ''150.000000 VESTS'' \<rparr>]"]
      page_after_dave bob_deltas b s
    by simp
qed

text \<open>
  Claim C3 as stated fails on that call: \<open>dry_run\<close> is set, and the signing step is
  invoked.
\<close>

theorem dry_run_signs_counterexample:
  "Sign \<in> set (fst (delegate redeemer builder (\<lambda>i. jan20) ''redeemer'' (Some ''dave'') 60
                       True [''5Jwif'']))"
  by (simp add: dry_run_page)

end
